theory Spec2Isabelle
  imports Complex_Main
begin

unbundle bit_operations_syntax

section \<open>Data model\<close>

text \<open>
  The detectors of \<^verbatim>\<open>src/app.py\<close> read a table of candles (a pandas DataFrame built
  from the rates of the data source) and return a dictionary that is serialised to
  JSON. A row of the table is a record; the dictionaries are records with the keys of
  the source as fields. Prices are Python floats: they are modelled as exact reals, so
  comparisons, subtraction and the decimal rounding of \<^verbatim>\<open>round(x, 2)\<close> are the
  mathematical ones and the binary rounding error of float64 is not part of the model.
  Timestamps are kept as numbers; the source only copies them (through \<^verbatim>\<open>str\<close>).
\<close>

record candle =
  time :: nat
  open_price :: real
  high :: real
  low :: real
  close :: real

text \<open>Faults of the Python run time that the modelled code can reach.\<close>

datatype py_error = IndexError | ValueError | ZeroDivisionError

text \<open>
  What a tool returns when it gives up without raising: the source returns an error
  string or an error dictionary.
\<close>

datatype 'a tool_result = Unavailable | Result 'a

text \<open>
  Division of Python floats raises on a zero divisor. (A pandas scalar would give
  \<^verbatim>\<open>inf\<close> or \<^verbatim>\<open>nan\<close> with a warning instead; the model takes the stricter reading
  for every division, so that a result of the model never passed a zero divisor.)
\<close>

definition py_div :: "real \<Rightarrow> real \<Rightarrow> py_error + real" where
  "py_div a b = (if b = 0 then Inl ZeroDivisionError else Inr (a / b))"

text \<open>
  Results of the iterations of a loop that appends to one list: the first fault ends
  the loop, otherwise the appended elements are concatenated in order.
\<close>

fun collect :: "(py_error + 'a list) list \<Rightarrow> py_error + 'a list" where
  "collect [] = Inr []"
| "collect (r # rs) =
     (case r of
        Inl e \<Rightarrow> Inl e
      | Inr xs \<Rightarrow> (case collect rs of Inl e \<Rightarrow> Inl e | Inr ys \<Rightarrow> Inr (xs @ ys)))"

text \<open>The slice \<^verbatim>\<open>xs[a:b]\<close> for \<open>0 \<le> a \<le> b\<close>.\<close>

definition slice :: "nat \<Rightarrow> nat \<Rightarrow> 'a list \<Rightarrow> 'a list" where
  "slice a b xs = take (b - a) (drop a xs)"

text \<open>
  \<^verbatim>\<open>Series.min()\<close> and \<^verbatim>\<open>Series.max()\<close> of a column without missing values. The source
  applies them to five rows; the empty column (\<^verbatim>\<open>nan\<close> in pandas) is never reached.
\<close>

fun series_min :: "real list \<Rightarrow> real" where
  "series_min (x # xs) = fold min xs x"

fun series_max :: "real list \<Rightarrow> real" where
  "series_max (x # xs) = fold max xs x"

text \<open>
  \<^verbatim>\<open>xs[-n:]\<close> for a positive literal \<open>n\<close>: the last \<open>n\<close> elements, or all of them
  when there are fewer.
\<close>

definition last_n :: "nat \<Rightarrow> 'a list \<Rightarrow> 'a list" where
  "last_n n xs = drop (length xs - n) xs"

section \<open>Order blocks: \<^verbatim>\<open>identify_order_blocks\<close>\<close>

datatype timeframe = M15 | H1 | H4 | D1

datatype ob_direction = Bullish | Bearish | Both

datatype ob_type = Bullish_ob | Bearish_ob

datatype strength = Reversal | Continuation

record order_block =
  ob_type :: ob_type
  ob_timeframe :: timeframe
  ob_time :: nat
  zone_low :: real
  zone_high :: real
  gap_size :: real
  ob_strength :: strength
  current_price_distance :: real

definition strength_of :: "timeframe \<Rightarrow> strength" where
  "strength_of tf = (if tf = H4 \<or> tf = D1 then Reversal else Continuation)"

text \<open>
  The bullish test of one loop iteration at index \<open>i\<close> (\<open>2 \<le> i < len(df)\<close>):
  the list of blocks it appends (none or one).
\<close>

definition bullish_at :: "candle list \<Rightarrow> timeframe \<Rightarrow> ob_direction \<Rightarrow> nat \<Rightarrow> order_block list" where
  "bullish_at df tf direction i =
     (let candle1 = df ! (i - 2); candle2 = df ! (i - 1); candle3 = df ! i in
      if direction = Bullish \<or> direction = Both then
        if close candle2 > high candle1 then
          (let gap = open_price candle2 - high candle1 in
           if gap > 0 then
             if low candle3 \<le> high candle1 then
               [\<lparr>ob_type = Bullish_ob, ob_timeframe = tf, ob_time = time candle1,
                 zone_low = low candle1, zone_high = high candle1, gap_size = gap,
                 ob_strength = strength_of tf,
                 current_price_distance = close (last df) - high candle1\<rparr>]
             else []
           else [])
        else []
      else [])"

definition bearish_at :: "candle list \<Rightarrow> timeframe \<Rightarrow> ob_direction \<Rightarrow> nat \<Rightarrow> order_block list" where
  "bearish_at df tf direction i =
     (let candle1 = df ! (i - 2); candle2 = df ! (i - 1); candle3 = df ! i in
      if direction = Bearish \<or> direction = Both then
        if close candle2 < low candle1 then
          (let gap = low candle1 - open_price candle2 in
           if gap > 0 then
             if high candle3 \<ge> low candle1 then
               [\<lparr>ob_type = Bearish_ob, ob_timeframe = tf, ob_time = time candle1,
                 zone_low = low candle1, zone_high = high candle1, gap_size = gap,
                 ob_strength = strength_of tf,
                 current_price_distance = low candle1 - close (last df)\<rparr>]
             else []
           else [])
        else []
      else [])"

text \<open>The loop \<^verbatim>\<open>for i in range(2, len(df))\<close>: every detection, oldest first.\<close>

definition scan_order_blocks :: "candle list \<Rightarrow> timeframe \<Rightarrow> ob_direction \<Rightarrow> order_block list" where
  "scan_order_blocks df tf direction =
     concat (map (\<lambda>i. bullish_at df tf direction i @ bearish_at df tf direction i)
                 [2..<length df])"

record order_blocks_report =
  obr_timeframe :: timeframe
  order_blocks_found :: nat
  order_blocks :: "order_block list"

text \<open>
  The tool itself. The argument is what the data source returned: \<open>None\<close> when the
  fetch failed, the rows otherwise.
\<close>

definition identify_order_blocks ::
  "candle list option \<Rightarrow> timeframe \<Rightarrow> ob_direction \<Rightarrow> order_blocks_report tool_result" where
  "identify_order_blocks rates tf direction =
     (case rates of
        None \<Rightarrow> Unavailable
      | Some df \<Rightarrow>
          (let obs = scan_order_blocks df tf direction in
           Result \<lparr>obr_timeframe = tf, order_blocks_found = length obs,
                   order_blocks = last_n 10 obs\<rparr>))"

section \<open>Liquidity sweeps: \<^verbatim>\<open>detect_liquidity_sweep\<close>\<close>

datatype sweep_type = Bullish_liq_sweep | Bearish_liq_sweep

datatype sweep_condition = Wick_sweep | Two_candle_rejection

text \<open>
  A sweep dictionary. The keys every entry has are plain fields; the keys only some
  entries have are optional.
\<close>

record sweep =
  sweep_type :: sweep_type
  condition :: sweep_condition
  sweep_time :: nat
  swept_level :: real
  sweep_low :: "real option"
  sweep_high :: "real option"
  close_price :: "real option"
  first_candle_body_ratio :: "real option"
  second_candle_inverse :: "real option"
  confirmation_candle :: nat
  valid :: bool

definition body_ratio_of :: "candle \<Rightarrow> py_error + real" where
  "body_ratio_of current =
     (let body_size = \<bar>close current - open_price current\<bar>;
          candle_range = high current - low current
      in if candle_range > 0 then py_div body_size candle_range else Inr 0)"

definition wick_sweep_bullish :: "candle \<Rightarrow> candle \<Rightarrow> real \<Rightarrow> sweep list" where
  "wick_sweep_bullish current next1 recent_lows =
     (if low current < recent_lows \<and> close current > recent_lows then
        if close next1 > recent_lows \<and> low next1 > recent_lows then
          [\<lparr>sweep_type = Bullish_liq_sweep, condition = Wick_sweep,
            sweep_time = time current, swept_level = recent_lows,
            sweep_low = Some (low current), sweep_high = None,
            close_price = Some (close current),
            first_candle_body_ratio = None, second_candle_inverse = None,
            confirmation_candle = time next1, valid = True\<rparr>]
        else []
      else [])"

definition two_candle_rejection :: "candle \<Rightarrow> candle \<Rightarrow> real \<Rightarrow> real \<Rightarrow> py_error + sweep list" where
  "two_candle_rejection current next1 recent_lows body_ratio =
     (let body_size = \<bar>close current - open_price current\<bar> in
      if close current < open_price current \<and> body_ratio \<le> 3 / 10 \<and>
         close current < recent_lows then
        (let next_body = \<bar>close next1 - open_price next1\<bar> in
         if close next1 > open_price next1 \<and> close next1 > recent_lows \<and>
            next_body \<ge> body_size * (4 / 10) then
           (case py_div next_body body_size of
              Inl e \<Rightarrow> Inl e
            | Inr inverse_ratio \<Rightarrow>
                Inr [\<lparr>sweep_type = Bullish_liq_sweep, condition = Two_candle_rejection,
                      sweep_time = time current, swept_level = recent_lows,
                      sweep_low = None, sweep_high = None, close_price = None,
                      first_candle_body_ratio = Some body_ratio,
                      second_candle_inverse = Some inverse_ratio,
                      confirmation_candle = time next1, valid = True\<rparr>])
         else Inr [])
      else Inr [])"

definition wick_sweep_bearish :: "candle \<Rightarrow> candle \<Rightarrow> real \<Rightarrow> sweep list" where
  "wick_sweep_bearish current next1 recent_highs =
     (if high current > recent_highs \<and> close current < recent_highs then
        if close next1 < recent_highs \<and> high next1 < recent_highs then
          [\<lparr>sweep_type = Bearish_liq_sweep, condition = Wick_sweep,
            sweep_time = time current, swept_level = recent_highs,
            sweep_low = None, sweep_high = Some (high current),
            close_price = Some (close current),
            first_candle_body_ratio = None, second_candle_inverse = None,
            confirmation_candle = time next1, valid = True\<rparr>]
        else []
      else [])"

text \<open>
  One iteration of the loop, at index \<open>i\<close>. The source also reads \<^verbatim>\<open>df.iloc[i + 2]\<close>
  into \<^verbatim>\<open>next2\<close> and never uses it.
\<close>

definition sweeps_at :: "candle list \<Rightarrow> nat \<Rightarrow> py_error + sweep list" where
  "sweeps_at df i =
     (let current = df ! i;
          next1 = df ! (i + 1);
          recent_lows = series_min (map low (slice (i - 5) i df));
          w1 = wick_sweep_bullish current next1 recent_lows
      in case body_ratio_of current of
           Inl e \<Rightarrow> Inl e
         | Inr body_ratio \<Rightarrow>
             (case two_candle_rejection current next1 recent_lows body_ratio of
                Inl e \<Rightarrow> Inl e
              | Inr w2 \<Rightarrow>
                  (let recent_highs = series_max (map high (slice (i - 5) i df));
                       w3 = wick_sweep_bearish current next1 recent_highs
                   in Inr (w1 @ w2 @ w3))))"

text \<open>The loop \<^verbatim>\<open>for i in range(5, len(df) - 2)\<close>.\<close>

definition scan_sweeps :: "candle list \<Rightarrow> py_error + sweep list" where
  "scan_sweeps df = collect (map (sweeps_at df) [5..<length df - 2])"

record sweep_report =
  sweeps_detected :: nat
  recent_sweeps :: "sweep list"
  current_price :: real

text \<open>
  The tool. After the loop the source reads \<^verbatim>\<open>df.iloc[-1]\<close> for the current price,
  which raises \<^verbatim>\<open>IndexError\<close> on a table without rows.
\<close>

definition detect_liquidity_sweep ::
  "candle list option \<Rightarrow> py_error + sweep_report tool_result" where
  "detect_liquidity_sweep rates =
     (case rates of
        None \<Rightarrow> Inr Unavailable
      | Some df \<Rightarrow>
          (case scan_sweeps df of
             Inl e \<Rightarrow> Inl e
           | Inr sweeps \<Rightarrow>
               if df = [] then Inl IndexError
               else Inr (Result \<lparr>sweeps_detected = length sweeps,
                                 recent_sweeps = last_n 5 sweeps,
                                 current_price = close (last df)\<rparr>)))"

section \<open>Structure shift and points of interest: \<^verbatim>\<open>find_mss_and_poi\<close>\<close>

text \<open>
  \<^verbatim>\<open>Series.idxmin()\<close> on the default index: the position of the first occurrence of
  the minimum. On an empty column pandas raises \<^verbatim>\<open>ValueError\<close>; the caller below
  tests for that before it calls.
\<close>

definition idxmin :: "real list \<Rightarrow> nat" where
  "idxmin xs = length (takeWhile (\<lambda>x. x \<noteq> series_min xs) xs)"

text \<open>
  The loop \<^verbatim>\<open>for i in range(lowest_idx + 1, len(df))\<close> that looks for the shift,
  from index \<open>i\<close> on with the running \<^verbatim>\<open>recent_high\<close>. It returns the level and the
  time of the shift at the \<^verbatim>\<open>break\<close>, and \<open>None\<close> when the range is exhausted.
\<close>

function mss_scan :: "candle list \<Rightarrow> nat \<Rightarrow> nat \<Rightarrow> real \<Rightarrow> (real \<times> nat) option" where
  "mss_scan df lowest_idx i recent_high =
     (if i < length df then
        (let current = df ! i;
             recent_high' = (if i > lowest_idx + 1
                             then max recent_high (high (df ! (i - 1)))
                             else recent_high)
         in if high current > recent_high' then Some (recent_high', time current)
            else mss_scan df lowest_idx (i + 1) recent_high')
      else None)"
  by pat_completeness auto
termination
  by (relation "measure (\<lambda>(df, lowest_idx, i, recent_high). length df - i)") auto

declare mss_scan.simps [simp del]

datatype poi_type = FVG | Order_Block

record poi =
  poi_type :: poi_type
  poi_time :: nat
  poi_zone_low :: real
  poi_zone_high :: real
  poi_gap_size :: "real option"

text \<open>One iteration of the second loop, for an index \<open>i\<close> that passed the \<^verbatim>\<open>break\<close> test.\<close>

definition pois_at :: "candle list \<Rightarrow> real \<Rightarrow> real \<Rightarrow> nat \<Rightarrow> poi list" where
  "pois_at df mss_zone_start mss_zone_end i =
     (let candle = df ! i in
      if mss_zone_start \<le> low candle \<and> low candle \<le> mss_zone_end then
        (if i \<ge> 2 then
           (let c1 = df ! (i - 2); c3 = candle; gap = low c3 - high c1 in
            if gap > 0 then
              [\<lparr>poi_type = FVG, poi_time = time candle, poi_zone_low = high c1,
                poi_zone_high = low c3, poi_gap_size = Some gap\<rparr>]
            else [])
         else [])
        @
        (if i > 0 then
           (let prev = df ! (i - 1) in
            if close candle > high prev then
              [\<lparr>poi_type = Order_Block, poi_time = time prev, poi_zone_low = low prev,
                poi_zone_high = high prev, poi_gap_size = None\<rparr>]
            else [])
         else [])
      else [])"

text \<open>
  The loop \<^verbatim>\<open>for i in range(lowest_idx, lowest_idx + 50)\<close>, left at the first \<open>i\<close> with
  \<^verbatim>\<open>i >= len(df) - 1\<close>. It runs on a table with at least one row.
\<close>

definition scan_pois :: "candle list \<Rightarrow> nat \<Rightarrow> real \<Rightarrow> real \<Rightarrow> poi list" where
  "scan_pois df lowest_idx mss_zone_start mss_zone_end =
     concat (map (pois_at df mss_zone_start mss_zone_end)
                 (takeWhile (\<lambda>i. \<not> i \<ge> length df - 1) [lowest_idx..<lowest_idx + 50]))"

record mss_report =
  mss_level :: real
  mss_time :: nat
  mss_zone_start :: real
  mss_zone_end :: real
  pois_in_zone :: nat
  pois :: "poi list"
  mss_current_price :: real

text \<open>
  The outcome of the tool on a fetched table: the dictionary that says that no shift
  was detected yet, or the report (\<^verbatim>\<open>mss_found\<close> true).
\<close>

datatype mss_outcome = No_mss_detected | Mss_found mss_report

definition find_mss_and_poi :: "candle list option \<Rightarrow> py_error + mss_outcome tool_result" where
  "find_mss_and_poi rates =
     (case rates of
        None \<Rightarrow> Inr Unavailable
      | Some df \<Rightarrow>
          if df = [] then Inl ValueError
          else
            (let lowest_idx = idxmin (map low df);
                 lowest_point = df ! lowest_idx
             in case mss_scan df lowest_idx (lowest_idx + 1) (high lowest_point) of
                  None \<Rightarrow> Inr (Result No_mss_detected)
                | Some (level, shift_time) \<Rightarrow>
                    (let zone_start = low lowest_point;
                         zone_end = level;
                         found = scan_pois df lowest_idx zone_start zone_end
                     in Inr (Result (Mss_found
                          \<lparr>mss_level = level, mss_time = shift_time,
                            mss_zone_start = zone_start, mss_zone_end = zone_end,
                            pois_in_zone = length found, pois = last_n 5 found,
                            mss_current_price = close (last df)\<rparr>)))))"

section \<open>The terminal: symbol information, ticks and the order sink\<close>

text \<open>
  The MetaTrader terminal is outside the repository. The tools read the symbol
  information and the current tick from it and hand it order requests; the model takes
  what the terminal answers as an argument.
\<close>

record symbol_info =
  visible :: bool
  filling_mode :: int
  point :: real

record tick =
  ask :: real
  bid :: real

datatype direction = Buy | Sell

section \<open>Risk parameters: \<^verbatim>\<open>calculate_entry_sl_tp\<close>\<close>

text \<open>
  \<^verbatim>\<open>round(x, n)\<close>: to the nearest multiple of \<open>10\<^sup>-\<^sup>n\<close>, a tie to the even one.
\<close>

definition round_half_even :: "real \<Rightarrow> int" where
  "round_half_even x =
     (let f = \<lfloor>x\<rfloor>; d = x - of_int f in
      if d < 1 / 2 then f
      else if d > 1 / 2 then f + 1
      else if even f then f else f + 1)"

definition py_round :: "real \<Rightarrow> nat \<Rightarrow> real" where
  "py_round x n = of_int (round_half_even (x * 10 ^ n)) / 10 ^ n"

record trade_parameters =
  tp_direction :: direction
  entry_price :: real
  stop_loss :: real
  take_profit :: real
  sl_points :: real
  tp_points :: real
  risk_reward_ratio :: real
  risk_pips :: real
  reward_pips :: real
  sl_buffer_used :: real

text \<open>The stop buffer: 20 pips of 10 points each.\<close>

definition sl_buffer_of :: "real \<Rightarrow> real" where
  "sl_buffer_of pt = 20 * 10 * pt"

text \<open>The stop, the risk and the target before rounding, as the two branches compute them.\<close>

definition raw_levels :: "direction \<Rightarrow> real \<Rightarrow> real \<Rightarrow> real \<Rightarrow> bool \<Rightarrow> real \<Rightarrow> real \<times> real \<times> real" where
  "raw_levels dir entry poi_level mss_lvl use_mss_sl sl_buffer =
     (case dir of
        Buy \<Rightarrow>
          (let sl = (if use_mss_sl then mss_lvl - sl_buffer else poi_level - sl_buffer);
               risk = entry - sl;
               tp = entry + risk * 2
           in (sl, risk, tp))
      | Sell \<Rightarrow>
          (let sl = (if use_mss_sl then mss_lvl + sl_buffer else poi_level + sl_buffer);
               risk = sl - entry;
               tp = entry - risk * 2
           in (sl, risk, tp)))"

definition calculate_entry_sl_tp ::
  "symbol_info option \<Rightarrow> direction \<Rightarrow> real \<Rightarrow> real \<Rightarrow> real \<Rightarrow> bool
     \<Rightarrow> py_error + trade_parameters tool_result" where
  "calculate_entry_sl_tp info dir entry poi_level mss_lvl use_mss_sl =
     (case info of
        None \<Rightarrow> Inr Unavailable
      | Some si \<Rightarrow>
          (let pt = point si;
               sl_buffer = sl_buffer_of pt;
               (sl, risk, tp) = raw_levels dir entry poi_level mss_lvl use_mss_sl sl_buffer
           in case py_div \<bar>entry - sl\<bar> pt of
                Inl e \<Rightarrow> Inl e
              | Inr slp \<Rightarrow>
                  (case py_div \<bar>tp - entry\<bar> pt of
                     Inl e \<Rightarrow> Inl e
                   | Inr tpp \<Rightarrow>
                       (case (if slp > 0 then py_div tpp slp else Inr 0) of
                          Inl e \<Rightarrow> Inl e
                        | Inr risk_reward \<Rightarrow>
                            (case py_div sl_buffer pt of
                               Inl e \<Rightarrow> Inl e
                             | Inr buffer_points \<Rightarrow>
                                 Inr (Result
                                   \<lparr>tp_direction = dir,
                                     entry_price = py_round entry 2,
                                     stop_loss = py_round sl 2,
                                     take_profit = py_round tp 2,
                                     sl_points = py_round slp 1,
                                     tp_points = py_round tpp 1,
                                     risk_reward_ratio = py_round risk_reward 2,
                                     risk_pips = py_round (slp / 10) 1,
                                     reward_pips = py_round (tpp / 10) 1,
                                     sl_buffer_used = py_round buffer_points 1\<rparr>))))))"

section \<open>Order submission: \<^verbatim>\<open>send_order\<close>\<close>

datatype trade_action = TRADE_ACTION_DEAL

datatype order_type = ORDER_TYPE_BUY | ORDER_TYPE_SELL

datatype order_filling = ORDER_FILLING_FOK | ORDER_FILLING_IOC | ORDER_FILLING_RETURN

datatype order_time = ORDER_TIME_GTC

definition SYMBOL :: string where
  "SYMBOL = ''XAUUSD''"

definition MAGIC_NUMBER :: int where
  "MAGIC_NUMBER = 7777"

definition TRADE_RETCODE_DONE :: int where
  "TRADE_RETCODE_DONE = 10009"

record trade_request =
  action :: trade_action
  symbol :: string
  volume :: real
  order_type :: order_type
  price :: real
  sl :: real
  tp :: real
  deviation :: int
  magic :: int
  comment :: string
  type_time :: order_time
  type_filling :: order_filling

record order_result =
  retcode :: int
  deal :: int

record terminal =
  symbol_info_of :: "symbol_info option"
  symbol_select :: bool
  symbol_info_tick :: "tick option"
  order_send :: "trade_request \<Rightarrow> order_result option"

text \<open>What the tool returns: one of its error dictionaries or the response.\<close>

record send_response =
  order_sent :: bool
  resp_retcode :: int
  resp_deal :: int
  resp_request :: trade_request
  success :: bool

datatype send_outcome =
    Symbol_info_not_available
  | Failed_to_select_symbol
  | Failed_to_get_current_price
  | Order_send_returned_None trade_request
  | Response send_response

text \<open>
  The tool returns its outcome together with the requests it handed to
  \<^verbatim>\<open>mt5.order_send\<close>, in order: none on the early returns, one otherwise.
\<close>

definition send_order ::
  "terminal \<Rightarrow> direction \<Rightarrow> real \<Rightarrow> real \<Rightarrow> real \<Rightarrow> real \<Rightarrow> string
     \<Rightarrow> send_outcome \<times> trade_request list" where
  "send_order mt5 dir entry sl_price tp_price lot_size cmt =
     (case symbol_info_of mt5 of
        None \<Rightarrow> (Symbol_info_not_available, [])
      | Some si \<Rightarrow>
          if \<not> visible si \<and> \<not> symbol_select mt5 then (Failed_to_select_symbol, [])
          else
            (case symbol_info_tick mt5 of
               None \<Rightarrow> (Failed_to_get_current_price, [])
             | Some current \<Rightarrow>
                 (let (otype, execution_price) =
                        (if dir = Buy then (ORDER_TYPE_BUY, ask current)
                         else (ORDER_TYPE_SELL, bid current));
                      fm = filling_mode si;
                      filling = (if fm AND 1 \<noteq> 0 then ORDER_FILLING_FOK
                                 else if fm AND 2 \<noteq> 0 then ORDER_FILLING_IOC
                                 else ORDER_FILLING_RETURN);
                      request = \<lparr>action = TRADE_ACTION_DEAL, symbol = SYMBOL,
                                 volume = lot_size, order_type = otype,
                                 price = execution_price, sl = sl_price, tp = tp_price,
                                 deviation = 20, magic = MAGIC_NUMBER, comment = cmt,
                                 type_time = ORDER_TIME_GTC, type_filling = filling\<rparr>
                  in case order_send mt5 request of
                       None \<Rightarrow> (Order_send_returned_None request, [request])
                     | Some res \<Rightarrow>
                         (Response \<lparr>order_sent = True, resp_retcode = retcode res,
                                    resp_deal = deal res, resp_request = request,
                                    success = (retcode res = TRADE_RETCODE_DONE)\<rparr>,
                          [request]))))"

section \<open>The approval step: \<^verbatim>\<open>handle_approval\<close> and the prompt of \<^verbatim>\<open>main\<close>\<close>

text \<open>
  When the agent is about to call \<^verbatim>\<open>send_order\<close> it is interrupted, and the
  interrupt carries the pending calls (\<^verbatim>\<open>action_requests\<close>): a tool name and a
  dictionary of arguments each. The operator's decision is turned into one decision per
  pending call, and the agent is resumed with them. The agent, and the middleware that
  then calls the tool with the arguments of the decision, are outside the repository.
\<close>

datatype arg_value = FloatV real | IntV int | StrV string

record action_request =
  name :: string
  args :: "string \<rightharpoonup> arg_value"

datatype decision = Approve | Reject string | Edit action_request

subsection \<open>\<^verbatim>\<open>handle_approval\<close> of \<^verbatim>\<open>src/agent_app.py\<close>\<close>

definition edited_action :: "action_request \<Rightarrow> real \<Rightarrow> real \<Rightarrow> real \<Rightarrow> real \<Rightarrow> action_request" where
  "edited_action act entry sl_price tp_price lot_size =
     \<lparr>name = name act,
      args = (args act)(''entry_price'' \<mapsto> FloatV entry,
                        ''sl_price'' \<mapsto> FloatV sl_price,
                        ''tp_price'' \<mapsto> FloatV tp_price,
                        ''lot_size'' \<mapsto> FloatV lot_size)\<rparr>"

text \<open>
  The value the agent is resumed with; \<open>None\<close> when the decision is none of the three
  words, in which case the source resumes nothing.
\<close>

definition resume_value ::
  "string \<Rightarrow> action_request list \<Rightarrow> real \<Rightarrow> real \<Rightarrow> real \<Rightarrow> real \<Rightarrow> decision list option" where
  "resume_value dec action_requests entry sl_price tp_price lot_size =
     (if dec = ''approve'' then Some (map (\<lambda>_. Approve) action_requests)
      else if dec = ''reject'' then
        Some (map (\<lambda>_. Reject ''Trade rejected by user'') action_requests)
      else if dec = ''edit'' then
        Some (map (\<lambda>act. Edit (edited_action act entry sl_price tp_price lot_size))
                  action_requests)
      else None)"

text \<open>
  The handler on the state \<^verbatim>\<open>agent_state.pending_interrupt\<close>. The agent is a
  function from the decisions it is resumed with to the next interrupt, if there is
  one; \<open>None\<close> for the agent is \<^verbatim>\<open>agent_state.agent\<close> being unset. The handler returns
  the decisions it resumed the agent with (if it did) and the new pending interrupt.
\<close>

definition handle_approval ::
  "action_request list option \<Rightarrow> (decision list \<Rightarrow> action_request list option) option
     \<Rightarrow> string \<Rightarrow> real \<Rightarrow> real \<Rightarrow> real \<Rightarrow> real
     \<Rightarrow> decision list option \<times> action_request list option" where
  "handle_approval pending_interrupt agent dec entry sl_price tp_price lot_size =
     (case pending_interrupt of
        None \<Rightarrow> (None, None)
      | Some action_requests \<Rightarrow>
          (case resume_value dec action_requests entry sl_price tp_price lot_size of
             None \<Rightarrow> (None, None)
           | Some decisions \<Rightarrow>
               (case agent of
                  None \<Rightarrow> (None, None)
                | Some resume \<Rightarrow>
                    (case resume decisions of
                       Some interrupt_data \<Rightarrow> (Some decisions, Some interrupt_data)
                     | None \<Rightarrow> (Some decisions, None)))))"

subsection \<open>The prompt in \<^verbatim>\<open>main\<close> of \<^verbatim>\<open>src/app.py\<close>\<close>

text \<open>
  In edit mode the prompt asks for a new value of every argument. What the operator
  typed (after \<^verbatim>\<open>strip\<close>) is converted by the type of the original value; an empty
  answer keeps the original, and an answer that does not convert is kept as the typed
  string. The conversions \<^verbatim>\<open>float\<close> and \<^verbatim>\<open>int\<close> of Python are arguments: \<open>None\<close>
  is their \<^verbatim>\<open>ValueError\<close>.
\<close>

definition edit_value ::
  "(string \<Rightarrow> real option) \<Rightarrow> (string \<Rightarrow> int option) \<Rightarrow> arg_value \<Rightarrow> string \<Rightarrow> arg_value" where
  "edit_value to_float to_int original_value new_value_input =
     (if new_value_input \<noteq> [] then
        (case original_value of
           FloatV _ \<Rightarrow>
             (case to_float new_value_input of
                Some x \<Rightarrow> FloatV x | None \<Rightarrow> StrV new_value_input)
         | IntV _ \<Rightarrow>
             (case to_int new_value_input of
                Some n \<Rightarrow> IntV n | None \<Rightarrow> StrV new_value_input)
         | StrV _ \<Rightarrow> StrV new_value_input)
      else original_value)"

definition prompt_edited_action ::
  "(string \<Rightarrow> real option) \<Rightarrow> (string \<Rightarrow> int option) \<Rightarrow> (string \<Rightarrow> string)
     \<Rightarrow> action_request \<Rightarrow> action_request" where
  "prompt_edited_action to_float to_int typed act =
     \<lparr>name = name act,
      args = (\<lambda>key. case args act key of
                       None \<Rightarrow> None
                     | Some original_value \<Rightarrow>
                         Some (edit_value to_float to_int original_value (typed key)))\<rparr>"

text \<open>
  The decisions of the prompt. \<open>reason\<close> is what the operator typed as the reason of a
  rejection, \<open>typed\<close> what was typed for each key of each pending call.
\<close>

definition prompt_resume_value ::
  "(string \<Rightarrow> real option) \<Rightarrow> (string \<Rightarrow> int option) \<Rightarrow> string \<Rightarrow> string
     \<Rightarrow> (action_request \<Rightarrow> string \<Rightarrow> string) \<Rightarrow> action_request list \<Rightarrow> decision list" where
  "prompt_resume_value to_float to_int dec reason typed action_requests =
     (if dec = ''approve'' then map (\<lambda>_. Approve) action_requests
      else if dec = ''reject'' then
        map (\<lambda>_. Reject (if reason \<noteq> [] then reason else ''Trade rejected by user''))
            action_requests
      else if dec = ''edit'' then
        map (\<lambda>act. Edit (prompt_edited_action to_float to_int (typed act) act))
            action_requests
      else map (\<lambda>_. Reject ''Invalid input - trade cancelled'') action_requests)"

section \<open>Example inputs\<close>

text \<open>A row of rates: time, open, high, low, close.\<close>

definition row :: "nat \<Rightarrow> real \<Rightarrow> real \<Rightarrow> real \<Rightarrow> real \<Rightarrow> candle" where
  "row t opn h l cl = \<lparr>time = t, open_price = opn, high = h, low = l, close = cl\<rparr>"

text \<open>
  Three candles with a bullish order block on the first: the second opens and closes
  above the high of the first (101), the third comes back to it.
\<close>

definition bullish_series :: "candle list" where
  "bullish_series =
     [row 1 100 101 99 (201 / 2),
      row 2 (203 / 2) 103 (506 / 5) (514 / 5),
      row 3 102 (205 / 2) (199 / 2) 100]"

text \<open>The same shape on a first candle without range (open, high, low and close at 100).\<close>

definition flat_anchor_series :: "candle list" where
  "flat_anchor_series =
     [row 1 100 100 100 100,
      row 2 101 102 101 102,
      row 3 101 101 100 100]"

text \<open>
  Three candles with a bearish order block on the first: the second opens and closes
  below the low of the first (99), the third comes back to it and closes at 98.
\<close>

definition bearish_series :: "candle list" where
  "bearish_series =
     [row 1 100 101 99 100,
      row 2 98 98 96 97,
      row 3 97 100 97 98]"

text \<open>The blocks that the detector reports on these three series.\<close>

definition bullish_block :: order_block where
  "bullish_block =
     \<lparr>ob_type = Bullish_ob, ob_timeframe = H4, ob_time = 1, zone_low = 99,
      zone_high = 101, gap_size = 1 / 2, ob_strength = Reversal,
      current_price_distance = - 1\<rparr>"

definition flat_block :: order_block where
  "flat_block =
     \<lparr>ob_type = Bullish_ob, ob_timeframe = H4, ob_time = 1, zone_low = 100,
      zone_high = 100, gap_size = 1, ob_strength = Reversal,
      current_price_distance = 0\<rparr>"

definition bearish_block :: order_block where
  "bearish_block =
     \<lparr>ob_type = Bearish_ob, ob_timeframe = H1, ob_time = 1, zone_low = 99,
      zone_high = 101, gap_size = 1, ob_strength = Continuation,
      current_price_distance = 1\<rparr>"

text \<open>
  Fourteen rising candles with long lower wicks: every index from 2 on detects a
  bullish block, twelve in all.
\<close>

definition rising_series :: "candle list" where
  "rising_series =
     map (\<lambda>k. row k (10 * real k + 5) (10 * real k + 10) 0 (10 * real k + 8)) [0..<14]"

text \<open>
  Eight 15-minute candles: the lows of the first five have their minimum at 1900, the
  sixth dips to 1899 and closes at 1901.5, the seventh stays above 1900 and closes at
  1902.
\<close>

definition sweep_series :: "candle list" where
  "sweep_series =
     [row 1 1905 1906 1901 1904,
      row 2 1904 1905 1900 1903,
      row 3 1903 1906 1902 1905,
      row 4 1905 1907 1903 1906,
      row 5 1906 1907 1902 1904,
      row 6 1904 1905 1899 (3803 / 2),
      row 7 (3803 / 2) 1903 1901 1902,
      row 8 1902 1903 1901 1902]"

text \<open>
  One-minute candles around a low at 99 (the second candle, with high 102): the third
  candle breaks that high. Inside the zone from 99 to 102 lie an order block at the
  second candle and a gap with an order block at the third.
\<close>

definition shift_series :: "candle list" where
  "shift_series =
     [row 0 (199 / 2) (499 / 5) (496 / 5) (498 / 5),
      row 1 (199 / 2) 102 99 100,
      row 2 (201 / 2) 104 100 103,
      row 3 103 105 (205 / 2) 104,
      row 4 104 106 103 105]"

text \<open>A lowest candle without range, followed by a candle with a higher high.\<close>

definition flat_low_series :: "candle list" where
  "flat_low_series =
     [row 1 100 100 100 100,
      row 2 100 101 100 101]"

text \<open>What the detectors report on these series.\<close>

definition rising_report :: order_blocks_report where
  "rising_report =
     \<lparr>obr_timeframe = M15, order_blocks_found = 12,
      order_blocks = last_n 10 (scan_order_blocks rising_series M15 Bullish)\<rparr>"

definition swept_low :: sweep where
  "swept_low =
     \<lparr>sweep_type = Bullish_liq_sweep, condition = Wick_sweep, sweep_time = 6,
      swept_level = 1900, sweep_low = Some 1899, sweep_high = None,
      close_price = Some (3803 / 2), first_candle_body_ratio = None,
      second_candle_inverse = None, confirmation_candle = 7, valid = True\<rparr>"

definition sweep_series_report :: sweep_report where
  "sweep_series_report =
     \<lparr>sweeps_detected = 1, recent_sweeps = [swept_low], current_price = 1902\<rparr>"

definition shift_report :: mss_report where
  "shift_report =
     \<lparr>mss_level = 102, mss_time = 2, mss_zone_start = 99, mss_zone_end = 102,
      pois_in_zone = 3,
      pois =
        [\<lparr>poi_type = Order_Block, poi_time = 0, poi_zone_low = 496 / 5,
          poi_zone_high = 499 / 5, poi_gap_size = None\<rparr>,
         \<lparr>poi_type = FVG, poi_time = 2, poi_zone_low = 499 / 5,
          poi_zone_high = 100, poi_gap_size = Some (1 / 5)\<rparr>,
         \<lparr>poi_type = Order_Block, poi_time = 1, poi_zone_low = 99,
          poi_zone_high = 102, poi_gap_size = None\<rparr>],
      mss_current_price = 105\<rparr>"

definition flat_low_report :: mss_report where
  "flat_low_report =
     \<lparr>mss_level = 100, mss_time = 2, mss_zone_start = 100, mss_zone_end = 100,
      pois_in_zone = 0, pois = [], mss_current_price = 101\<rparr>"

text \<open>XAUUSD with two digits: a point is 0.01.\<close>

definition xauusd_info :: symbol_info where
  "xauusd_info = \<lparr>visible = True, filling_mode = 2, point = 1 / 100\<rparr>"

text \<open>
  What the calculator returns on three buys: entry 4190 over the level 4180 (stop at
  4178), entry 4170 under the same level, and entry 4190 over the level 4180.001.
\<close>

definition buy_parameters :: trade_parameters where
  "buy_parameters =
     \<lparr>tp_direction = Buy, entry_price = 4190, stop_loss = 4178, take_profit = 4214,
      sl_points = 1200, tp_points = 2400, risk_reward_ratio = 2, risk_pips = 120,
      reward_pips = 240, sl_buffer_used = 200\<rparr>"

definition wrong_side_parameters :: trade_parameters where
  "wrong_side_parameters =
     \<lparr>tp_direction = Buy, entry_price = 4170, stop_loss = 4178, take_profit = 4154,
      sl_points = 800, tp_points = 1600, risk_reward_ratio = 2, risk_pips = 80,
      reward_pips = 160, sl_buffer_used = 200\<rparr>"

definition off_grid_parameters :: trade_parameters where
  "off_grid_parameters =
     \<lparr>tp_direction = Buy, entry_price = 4190, stop_loss = 4178, take_profit = 4214,
      sl_points = 11999 / 10, tp_points = 11999 / 5, risk_reward_ratio = 2,
      risk_pips = 120, reward_pips = 240, sl_buffer_used = 200\<rparr>"

text \<open>A terminal that quotes 4190.50 / 4191.00 and fills every order.\<close>

definition quoting_terminal :: terminal where
  "quoting_terminal =
     \<lparr>symbol_info_of = Some xauusd_info, symbol_select = True,
      symbol_info_tick = Some \<lparr>ask = 4191, bid = 8381 / 2\<rparr>,
      order_send = (\<lambda>request. Some \<lparr>retcode = 10009, deal = 1\<rparr>)\<rparr>"

text \<open>The request of a buy of 0.01 lots with stop 4178 and target 4214 on that terminal.\<close>

definition market_buy_request :: trade_request where
  "market_buy_request =
     \<lparr>action = TRADE_ACTION_DEAL, symbol = ''XAUUSD'', volume = 1 / 100,
      order_type = ORDER_TYPE_BUY, price = 4191, sl = 4178, tp = 4214, deviation = 20,
      magic = 7777, comment = ''7MS Strategy'', type_time = ORDER_TIME_GTC,
      type_filling = ORDER_FILLING_IOC\<rparr>"

text \<open>The pending call of a proposed buy at 4190 with stop 4178 and target 4214.\<close>

definition proposed_order :: action_request where
  "proposed_order =
     \<lparr>name = ''send_order'',
      args = [''direction'' \<mapsto> StrV ''buy'', ''entry_price'' \<mapsto> FloatV 4190,
              ''sl_price'' \<mapsto> FloatV 4178, ''tp_price'' \<mapsto> FloatV 4214,
              ''lot_size'' \<mapsto> FloatV (1 / 100), ''comment'' \<mapsto> StrV ''7MS Strategy'']\<rparr>"

text \<open>
  An operator at the prompt who types a new entry price and leaves the other answers
  empty, and the conversions on what was typed.
\<close>

definition typed_entry :: "action_request \<Rightarrow> string \<Rightarrow> string" where
  "typed_entry act key = (if key = ''entry_price'' then ''4192'' else [])"

definition float_of_typed :: "string \<Rightarrow> real option" where
  "float_of_typed text = (if text = ''4192'' then Some 4192 else None)"

definition int_of_typed :: "string \<Rightarrow> int option" where
  "int_of_typed text = (if text = ''4192'' then Some 4192 else None)"

text \<open>
  A pending call whose entry price and stop were proposed as whole numbers, and an
  operator who answers every question of the prompt but the lot size and the
  direction: a whole number for the entry price, a decimal for the stop, a number with
  a comma for the target, and a new comment.
\<close>

definition whole_number_order :: action_request where
  "whole_number_order =
     \<lparr>name = ''send_order'',
      args = [''direction'' \<mapsto> StrV ''buy'', ''entry_price'' \<mapsto> IntV 4190,
              ''sl_price'' \<mapsto> IntV 4178, ''tp_price'' \<mapsto> FloatV 4214,
              ''lot_size'' \<mapsto> FloatV (1 / 100), ''comment'' \<mapsto> StrV ''7MS Strategy'']\<rparr>"

definition typed_answers :: "action_request \<Rightarrow> string \<Rightarrow> string" where
  "typed_answers act key =
     (if key = ''entry_price'' then ''4192''
      else if key = ''sl_price'' then ''4180.5''
      else if key = ''tp_price'' then ''4220,0''
      else if key = ''comment'' then ''edited''
      else [])"

text \<open>An agent that finishes after it is resumed.\<close>

definition finishing_agent :: "decision list \<Rightarrow> action_request list option" where
  "finishing_agent decisions = None"

section \<open>Properties of the order-block detector\<close>

lemma set_last_n: "set (last_n n xs) \<subseteq> set xs"
  unfolding last_n_def by (rule set_drop_subset)

lemma length_last_n: "length (last_n n xs) = min n (length xs)"
  unfolding last_n_def by simp

lemma in_scan_order_blocks:
  assumes "b \<in> set (scan_order_blocks df tf direction)"
  obtains i where "2 \<le> i" "i < length df"
    "b \<in> set (bullish_at df tf direction i) \<or> b \<in> set (bearish_at df tf direction i)"
  using assms unfolding scan_order_blocks_def by auto

lemma bullish_at_block:
  assumes "b \<in> set (bullish_at df tf direction i)"
  shows "ob_type b = Bullish_ob \<and> 0 < gap_size b \<and>
         zone_low b = low (df ! (i - 2)) \<and> zone_high b = high (df ! (i - 2)) \<and>
         current_price_distance b = close (last df) - zone_high b"
  using assms unfolding bullish_at_def Let_def by (auto split: if_splits)

lemma bearish_at_block:
  assumes "b \<in> set (bearish_at df tf direction i)"
  shows "ob_type b = Bearish_ob \<and> 0 < gap_size b \<and>
         zone_low b = low (df ! (i - 2)) \<and> zone_high b = high (df ! (i - 2)) \<and>
         current_price_distance b = zone_low b - close (last df)"
  using assms unfolding bearish_at_def Let_def by (auto split: if_splits)

lemma reported_block_scanned:
  assumes "identify_order_blocks (Some df) tf direction = Result r"
    and "b \<in> set (order_blocks r)"
  shows "b \<in> set (scan_order_blocks df tf direction)"
  using assms set_last_n [of 10 "scan_order_blocks df tf direction"]
  unfolding identify_order_blocks_def Let_def by auto

text \<open>
  Claim C5, as the code has it. Every reported block carries a signed distance to the
  close of the last candle. For a bullish block it is the last close minus the zone
  high. For a bearish block it is the zone low minus the last close: the mirror image,
  not the last close minus the zone low.
\<close>

theorem current_price_distance_signed:
  assumes "identify_order_blocks (Some df) tf direction = Result r"
    and "b \<in> set (order_blocks r)"
  shows "(ob_type b = Bullish_ob \<longrightarrow>
            current_price_distance b = close (last df) - zone_high b) \<and>
         (ob_type b = Bearish_ob \<longrightarrow>
            current_price_distance b = zone_low b - close (last df))"
proof -
  from assms have "b \<in> set (scan_order_blocks df tf direction)"
    by (rule reported_block_scanned)
  then obtain i where
    "b \<in> set (bullish_at df tf direction i) \<or> b \<in> set (bearish_at df tf direction i)"
    by (rule in_scan_order_blocks)
  then show ?thesis
  proof
    assume "b \<in> set (bullish_at df tf direction i)"
    from bullish_at_block [OF this] show ?thesis by simp
  next
    assume "b \<in> set (bearish_at df tf direction i)"
    from bearish_at_block [OF this] show ?thesis by simp
  qed
qed

text \<open>
  The bearish series has its block at zone low 99 and closes at 98: the reported
  distance is 1, and the last close minus the zone low is -1.
\<close>

theorem current_price_distance_signed_witness:
  "identify_order_blocks (Some bearish_series) H1 Bearish =
     Result \<lparr>obr_timeframe = H1, order_blocks_found = 1, order_blocks = [bearish_block]\<rparr> \<and>
   ob_type bearish_block = Bearish_ob \<and>
   current_price_distance bearish_block = zone_low bearish_block - close (last bearish_series)"
proof -
  have run: "identify_order_blocks (Some bearish_series) H1 Bearish =
     Result \<lparr>obr_timeframe = H1, order_blocks_found = 1, order_blocks = [bearish_block]\<rparr>"
    by code_simp
  have reported: "bearish_block \<in> set (order_blocks
     \<lparr>obr_timeframe = H1, order_blocks_found = 1, order_blocks = [bearish_block]\<rparr>)"
    by simp
  have kind: "ob_type bearish_block = Bearish_ob"
    by (simp add: bearish_block_def)
  from current_price_distance_signed [OF run reported] kind
  have "current_price_distance bearish_block = zone_low bearish_block - close (last bearish_series)"
    by blast
  with run kind show ?thesis by blast
qed

theorem current_price_distance_bearish_counterexample:
  "identify_order_blocks (Some bearish_series) H1 Bearish =
     Result \<lparr>obr_timeframe = H1, order_blocks_found = 1, order_blocks = [bearish_block]\<rparr> \<and>
   current_price_distance bearish_block \<noteq> close (last bearish_series) - zone_low bearish_block"
  by code_simp

text \<open>
  Claim C6, as the code has it. Every reported block has a positive gap, and its zone
  is the low and the high of a candle of the series, unchecked: the zone low is below
  the zone high when the candles of the series have a range, and the two coincide on a
  candle without range.
\<close>

theorem order_block_zone:
  assumes "identify_order_blocks (Some df) tf direction = Result r"
    and "b \<in> set (order_blocks r)"
  shows "0 < gap_size b \<and>
         (\<exists>c \<in> set df. zone_low b = low c \<and> zone_high b = high c) \<and>
         ((\<forall>c \<in> set df. low c < high c) \<longrightarrow> zone_low b < zone_high b)"
proof -
  from assms have "b \<in> set (scan_order_blocks df tf direction)"
    by (rule reported_block_scanned)
  then obtain i where i: "2 \<le> i" "i < length df"
    and "b \<in> set (bullish_at df tf direction i) \<or> b \<in> set (bearish_at df tf direction i)"
    by (rule in_scan_order_blocks)
  then have b: "0 < gap_size b" "zone_low b = low (df ! (i - 2))"
    "zone_high b = high (df ! (i - 2))"
    using bullish_at_block [of b df tf direction i] bearish_at_block [of b df tf direction i]
    by auto
  from i have "df ! (i - 2) \<in> set df" by simp
  with b show ?thesis by auto
qed

theorem order_block_zone_witness:
  "identify_order_blocks (Some bullish_series) H4 Both =
     Result \<lparr>obr_timeframe = H4, order_blocks_found = 1, order_blocks = [bullish_block]\<rparr> \<and>
   0 < gap_size bullish_block \<and> zone_low bullish_block < zone_high bullish_block"
proof -
  have run: "identify_order_blocks (Some bullish_series) H4 Both =
     Result \<lparr>obr_timeframe = H4, order_blocks_found = 1, order_blocks = [bullish_block]\<rparr>"
    by code_simp
  have reported: "bullish_block \<in> set (order_blocks
     \<lparr>obr_timeframe = H4, order_blocks_found = 1, order_blocks = [bullish_block]\<rparr>)"
    by simp
  have ranges: "\<forall>c \<in> set bullish_series. low c < high c"
    by code_simp
  from order_block_zone [OF run reported] ranges
  have "0 < gap_size bullish_block \<and> zone_low bullish_block < zone_high bullish_block"
    by blast
  with run show ?thesis by blast
qed

text \<open>
  On a first candle without range the block is reported with its zone low equal to its
  zone high.
\<close>

theorem order_block_zone_flat_counterexample:
  "identify_order_blocks (Some flat_anchor_series) H4 Both =
     Result \<lparr>obr_timeframe = H4, order_blocks_found = 1, order_blocks = [flat_block]\<rparr> \<and>
   \<not> zone_low flat_block < zone_high flat_block"
  by code_simp

section \<open>Properties of the liquidity-sweep detector\<close>

lemma collect_member:
  assumes "collect rs = Inr ys" and "y \<in> set ys"
  shows "\<exists>xs. Inr xs \<in> set rs \<and> y \<in> set xs"
  using assms
proof (induction rs arbitrary: ys)
  case Nil
  then show ?case by simp
next
  case (Cons r rs)
  then show ?case
    by (fastforce split: sum.splits)
qed

lemma collect_total:
  assumes "\<forall>r \<in> set rs. \<exists>xs. r = Inr xs"
  shows "\<exists>ys. collect rs = Inr ys"
  using assms
proof (induction rs)
  case Nil
  then show ?case by simp
next
  case (Cons r rs)
  then obtain xs ys where "r = Inr xs" "collect rs = Inr ys" by auto
  then show ?case by simp
qed

text \<open>
  No division of the detector meets a zero divisor: the body ratio is guarded by the
  range of the candle, and the inverse ratio is only computed for a candle that closed
  below its open.
\<close>

lemma body_ratio_of_total: "\<exists>q. body_ratio_of c = Inr q"
  unfolding body_ratio_of_def py_div_def Let_def by simp

lemma body_ratio_of_zero_range: "high c = low c \<Longrightarrow> body_ratio_of c = Inr 0"
  unfolding body_ratio_of_def Let_def by simp

lemma two_candle_rejection_total:
  "\<exists>w. two_candle_rejection current next1 recent_lows body_ratio = Inr w"
  unfolding two_candle_rejection_def py_div_def Let_def by auto

lemma sweeps_at_total: "\<exists>w. sweeps_at df i = Inr w"
proof -
  obtain q where q: "body_ratio_of (df ! i) = Inr q"
    using body_ratio_of_total by blast
  obtain w2 where "two_candle_rejection (df ! i) (df ! (i + 1))
      (series_min (map low (slice (i - 5) i df))) q = Inr w2"
    using two_candle_rejection_total by blast
  with q show ?thesis
    unfolding sweeps_at_def Let_def by simp
qed

lemma scan_sweeps_total: "\<exists>sweeps. scan_sweeps df = Inr sweeps"
  unfolding scan_sweeps_def by (rule collect_total) (simp add: sweeps_at_total)

lemma detect_liquidity_sweep_total:
  assumes "df \<noteq> []"
  shows "\<exists>r. detect_liquidity_sweep (Some df) = Inr (Result r)"
proof -
  obtain sweeps where "scan_sweeps df = Inr sweeps"
    using scan_sweeps_total by blast
  with assms show ?thesis
    unfolding detect_liquidity_sweep_def by simp
qed

lemma wick_sweep_bullish_times:
  "s \<in> set (wick_sweep_bullish current next1 lvl) \<Longrightarrow>
     sweep_time s = time current \<and> confirmation_candle s = time next1"
  unfolding wick_sweep_bullish_def by (auto split: if_splits)

lemma wick_sweep_bearish_times:
  "s \<in> set (wick_sweep_bearish current next1 lvl) \<Longrightarrow>
     sweep_time s = time current \<and> confirmation_candle s = time next1"
  unfolding wick_sweep_bearish_def by (auto split: if_splits)

lemma two_candle_rejection_times:
  "two_candle_rejection current next1 lvl q = Inr w \<Longrightarrow> s \<in> set w \<Longrightarrow>
     sweep_time s = time current \<and> confirmation_candle s = time next1"
  unfolding two_candle_rejection_def Let_def by (auto split: if_splits sum.splits)

lemma sweeps_at_times:
  assumes "sweeps_at df i = Inr w" and "s \<in> set w"
  shows "sweep_time s = time (df ! i) \<and> confirmation_candle s = time (df ! (i + 1))"
  using assms wick_sweep_bullish_times wick_sweep_bearish_times two_candle_rejection_times
  unfolding sweeps_at_def Let_def
  by (fastforce split: sum.splits)

lemma scan_sweeps_member:
  assumes "scan_sweeps df = Inr sweeps" and "s \<in> set sweeps"
  shows "\<exists>i. 5 \<le> i \<and> i + 2 < length df \<and>
            sweep_time s = time (df ! i) \<and> confirmation_candle s = time (df ! (i + 1))"
proof -
  from assms(1) have "collect (map (sweeps_at df) [5..<length df - 2]) = Inr sweeps"
    unfolding scan_sweeps_def .
  from collect_member [OF this assms(2)]
  obtain w where w: "Inr w \<in> set (map (sweeps_at df) [5..<length df - 2])"
    and s: "s \<in> set w"
    by blast
  from w have "Inr w \<in> sweeps_at df ` {5..<length df - 2}"
    by simp
  then obtain i where i: "i \<in> {5..<length df - 2}" and at: "Inr w = sweeps_at df i"
    by (rule imageE)
  from at have "sweeps_at df i = Inr w" by (rule sym)
  from sweeps_at_times [OF this s]
  have times: "sweep_time s = time (df ! i) \<and> confirmation_candle s = time (df ! (i + 1))" .
  from i have "5 \<le> i" and "i < length df - 2" by simp_all
  then have "5 \<le> i \<and> i + 2 < length df" by linarith
  with times show ?thesis by blast
qed

text \<open>
  Claim C7. Every sweep that the detector returns was found at an index \<open>i\<close> of the
  loop, from 5 to the length of the series minus 3: its sweep time is the time of
  candle \<open>i\<close> and its confirmation candle is candle \<open>i + 1\<close>, which lies inside the
  series (and so does candle \<open>i + 2\<close>).
\<close>

theorem sweep_confirmation_in_series:
  assumes "detect_liquidity_sweep (Some df) = Inr (Result r)"
    and "s \<in> set (recent_sweeps r)"
  shows "\<exists>i. 5 \<le> i \<and> i + 2 < length df \<and> i + 1 < length df \<and>
            sweep_time s = time (df ! i) \<and> confirmation_candle s = time (df ! (i + 1))"
proof -
  from assms(1) obtain sweeps where scan: "scan_sweeps df = Inr sweeps"
    and r: "recent_sweeps r = last_n 5 sweeps"
    unfolding detect_liquidity_sweep_def by (auto split: sum.splits if_splits)
  have "set (last_n 5 sweeps) \<subseteq> set sweeps"
    unfolding last_n_def by (rule set_drop_subset)
  with assms(2) r have "s \<in> set sweeps" by auto
  from scan_sweeps_member [OF scan this] show ?thesis by auto
qed

text \<open>
  On the sweep series the sweep is found at index 5, the sixth candle, and confirmed by
  the seventh.
\<close>

theorem sweep_confirmation_in_series_witness:
  "detect_liquidity_sweep (Some sweep_series) = Inr (Result sweep_series_report) \<and>
   swept_low \<in> set (recent_sweeps sweep_series_report) \<and>
   (\<exists>i. 5 \<le> i \<and> i + 2 < length sweep_series \<and> i + 1 < length sweep_series \<and>
        sweep_time swept_low = time (sweep_series ! i) \<and>
        confirmation_candle swept_low = time (sweep_series ! (i + 1)))"
proof -
  have run: "detect_liquidity_sweep (Some sweep_series) = Inr (Result sweep_series_report)"
    by code_simp
  have reported: "swept_low \<in> set (recent_sweeps sweep_series_report)"
    by (simp add: sweep_series_report_def)
  note sweep_confirmation_in_series [OF run reported]
  with run reported show ?thesis by blast
qed

text \<open>
  Claim C9. A candle without range has body ratio 0 and no division of the loop can
  fault (\<open>body_ratio_of_zero_range\<close>, \<open>scan_sweeps_total\<close>), and the detector returns
  a report on every series with at least one candle (\<open>detect_liquidity_sweep_total\<close>).
  On the series without candles it does not: the loop is skipped and the read of the
  last close for \<^verbatim>\<open>current_price\<close> raises \<^verbatim>\<open>IndexError\<close>.
\<close>

theorem sweep_detector_empty_series: "detect_liquidity_sweep (Some []) = Inl IndexError"
  by code_simp

section \<open>Properties of the structure-shift locator\<close>

lemma series_min_Min:
  assumes "xs \<noteq> []"
  shows "series_min xs = Min (set xs)"
proof (cases xs)
  case Nil
  with assms show ?thesis by simp
next
  case (Cons a list)
  have "Min (set (a # list)) = fold min list a"
    by (rule Min.set_eq_fold)
  with Cons show ?thesis by simp
qed

lemma series_min_in: "xs \<noteq> [] \<Longrightarrow> series_min xs \<in> set xs"
  using Min_in [of "set xs"] by (simp add: series_min_Min)

lemma series_min_le: "x \<in> set xs \<Longrightarrow> series_min xs \<le> x"
  using Min_le [of "set xs" x] by (cases "xs = []") (simp_all add: series_min_Min)

lemma idxmin_less:
  assumes "xs \<noteq> []"
  shows "idxmin xs < length xs"
proof -
  from assms have "\<exists>x \<in> set xs. \<not> x \<noteq> series_min xs"
    using series_min_in by auto
  then have "takeWhile (\<lambda>x. x \<noteq> series_min xs) xs \<noteq> xs"
    by (simp add: takeWhile_eq_all_conv)
  moreover have "length (takeWhile (\<lambda>x. x \<noteq> series_min xs) xs) \<le> length xs"
    by (rule length_takeWhile_le)
  ultimately show ?thesis
    unfolding idxmin_def
    by (metis le_neq_implies_less takeWhile_eq_take take_all_iff order_refl)
qed

lemma idxmin_nth:
  assumes "xs \<noteq> []"
  shows "xs ! idxmin xs = series_min xs"
  using nth_length_takeWhile [of "\<lambda>x. x \<noteq> series_min xs" xs] idxmin_less [OF assms]
  unfolding idxmin_def by simp

lemma mss_scan_level:
  "mss_scan df lowest_idx i recent_high = Some (level, shift_time) \<Longrightarrow> recent_high \<le> level"
proof (induction df lowest_idx i recent_high rule: mss_scan.induct)
  case (1 df lowest_idx i recent_high)
  let ?rh = "if i > lowest_idx + 1 then max recent_high (high (df ! (i - 1))) else recent_high"
  have le: "recent_high \<le> ?rh" by simp
  from "1.prems" have inside: "i < length df"
    by (subst (asm) mss_scan.simps) (simp split: if_splits)
  show ?case
  proof (cases "high (df ! i) > ?rh")
    case True
    with "1.prems" inside have "level = ?rh"
      by (subst (asm) mss_scan.simps) (simp add: Let_def)
    with le show ?thesis by simp
  next
    case False
    with "1.prems" inside
    have "mss_scan df lowest_idx (i + 1) ?rh = Some (level, shift_time)"
      by (subst (asm) mss_scan.simps) (simp add: Let_def)
    with "1.IH" [OF inside refl refl False] have "?rh \<le> level" by simp
    with le show ?thesis by linarith
  qed
qed

text \<open>
  Claim C8, as the code has it. When a shift is found, the zone start is the low of the
  lowest candle of the series, and the shift level is at least the high of that candle.
  So the level is strictly above the zone start when the lowest candle has a range; the
  code does not compare the two, and on a lowest candle without range they can be
  equal.
\<close>

theorem mss_level_above_anchor:
  assumes "find_mss_and_poi (Some df) = Inr (Result (Mss_found r))"
  shows "\<exists>c \<in> set df. mss_zone_start r = low c \<and> (\<forall>c' \<in> set df. low c \<le> low c') \<and>
           high c \<le> mss_level r \<and> (low c < high c \<longrightarrow> mss_zone_start r < mss_level r)"
proof -
  let ?idx = "idxmin (map low df)"
  let ?c = "df ! ?idx"
  from assms have ne: "df \<noteq> []"
    unfolding find_mss_and_poi_def by (auto split: if_splits)
  with assms obtain shift_time where
    scan: "mss_scan df ?idx (?idx + 1) (high ?c) = Some (mss_level r, shift_time)"
    and start: "mss_zone_start r = low ?c"
    unfolding find_mss_and_poi_def Let_def
    by (auto split: option.splits)
  from ne have idx: "?idx < length df"
    using idxmin_less [of "map low df"] by simp
  then have mem: "?c \<in> set df" by simp
  from ne idx have "low ?c = series_min (map low df)"
    using idxmin_nth [of "map low df"] by simp
  then have lowest: "\<forall>c' \<in> set df. low ?c \<le> low c'"
    using series_min_le [of _ "map low df"] by simp
  from mss_scan_level [OF scan] have "high ?c \<le> mss_level r" .
  with start lowest mem show ?thesis
    by (intro bexI [of _ ?c]) auto
qed

theorem mss_level_above_anchor_witness:
  "find_mss_and_poi (Some shift_series) = Inr (Result (Mss_found shift_report)) \<and>
   mss_zone_start shift_report < mss_level shift_report"
proof -
  have run: "find_mss_and_poi (Some shift_series) = Inr (Result (Mss_found shift_report))"
    by code_simp
  have ranges: "\<forall>c \<in> set shift_series. low c < high c"
    by code_simp
  from mss_level_above_anchor [OF run] ranges
  have "mss_zone_start shift_report < mss_level shift_report"
    by blast
  with run show ?thesis by blast
qed

text \<open>
  A lowest candle at 100 without range, followed by a candle with high 101: the shift
  is found with level 100 and zone start 100.
\<close>

theorem mss_level_flat_counterexample:
  "find_mss_and_poi (Some flat_low_series) = Inr (Result (Mss_found flat_low_report)) \<and>
   \<not> mss_zone_start flat_low_report < mss_level flat_low_report"
  by code_simp

section \<open>Counts and truncated lists of the three reports\<close>

lemma last_n_suffix: "\<exists>older. xs = older @ last_n n xs"
  unfolding last_n_def by (metis append_take_drop_id)

text \<open>
  Claim C10. Each report carries the number of all detections of its loop and the list
  of the most recent ones: the last 10 order blocks, the last 5 sweeps, the last 5
  points of interest. The list is a suffix of all detections, it is never longer than
  its bound, and never longer than the count.
\<close>

theorem reports_count_and_truncate:
  assumes "identify_order_blocks (Some df1) tf direction = Result r1"
    and "detect_liquidity_sweep (Some df2) = Inr (Result r2)"
    and "find_mss_and_poi (Some df3) = Inr (Result (Mss_found r3))"
  shows "(order_blocks_found r1 = length (scan_order_blocks df1 tf direction) \<and>
          order_blocks r1 = last_n 10 (scan_order_blocks df1 tf direction) \<and>
          (\<exists>older. scan_order_blocks df1 tf direction = older @ order_blocks r1) \<and>
          length (order_blocks r1) \<le> 10 \<and> length (order_blocks r1) \<le> order_blocks_found r1) \<and>
         (\<exists>sweeps. scan_sweeps df2 = Inr sweeps \<and>
            sweeps_detected r2 = length sweeps \<and> recent_sweeps r2 = last_n 5 sweeps \<and>
            (\<exists>older. sweeps = older @ recent_sweeps r2) \<and>
            length (recent_sweeps r2) \<le> 5 \<and> length (recent_sweeps r2) \<le> sweeps_detected r2) \<and>
         (\<exists>found. found = scan_pois df3 (idxmin (map low df3)) (mss_zone_start r3) (mss_zone_end r3) \<and>
            pois_in_zone r3 = length found \<and> pois r3 = last_n 5 found \<and>
            (\<exists>older. found = older @ pois r3) \<and>
            length (pois r3) \<le> 5 \<and> length (pois r3) \<le> pois_in_zone r3)"
proof (intro conjI)
  let ?obs = "scan_order_blocks df1 tf direction"
  from assms(1) have r1: "order_blocks_found r1 = length ?obs" "order_blocks r1 = last_n 10 ?obs"
    unfolding identify_order_blocks_def Let_def by auto
  from r1 show "order_blocks_found r1 = length ?obs" by simp
  from r1 show "order_blocks r1 = last_n 10 ?obs" by simp
  from r1 show "\<exists>older. ?obs = older @ order_blocks r1"
    using last_n_suffix [of ?obs 10] by simp
  from r1 show "length (order_blocks r1) \<le> 10"
    by (simp add: length_last_n)
  from r1 show "length (order_blocks r1) \<le> order_blocks_found r1"
    by (simp add: length_last_n)
next
  from assms(2) obtain sweeps where scan: "scan_sweeps df2 = Inr sweeps"
    and r2: "sweeps_detected r2 = length sweeps" "recent_sweeps r2 = last_n 5 sweeps"
    unfolding detect_liquidity_sweep_def by (auto split: sum.splits if_splits)
  from r2 have "(\<exists>older. sweeps = older @ recent_sweeps r2) \<and>
      length (recent_sweeps r2) \<le> 5 \<and> length (recent_sweeps r2) \<le> sweeps_detected r2"
    using last_n_suffix [of sweeps 5] by (simp add: length_last_n)
  with scan r2 show "\<exists>sweeps. scan_sweeps df2 = Inr sweeps \<and>
            sweeps_detected r2 = length sweeps \<and> recent_sweeps r2 = last_n 5 sweeps \<and>
            (\<exists>older. sweeps = older @ recent_sweeps r2) \<and>
            length (recent_sweeps r2) \<le> 5 \<and> length (recent_sweeps r2) \<le> sweeps_detected r2"
    by blast
next
  let ?found = "scan_pois df3 (idxmin (map low df3)) (mss_zone_start r3) (mss_zone_end r3)"
  from assms(3) have r3: "pois_in_zone r3 = length ?found" "pois r3 = last_n 5 ?found"
    unfolding find_mss_and_poi_def Let_def
    by (auto split: if_splits option.splits)
  then have "(\<exists>older. ?found = older @ pois r3) \<and>
      length (pois r3) \<le> 5 \<and> length (pois r3) \<le> pois_in_zone r3"
    using last_n_suffix [of ?found 5] by (simp add: length_last_n)
  with r3 show "\<exists>found. found = ?found \<and>
            pois_in_zone r3 = length found \<and> pois r3 = last_n 5 found \<and>
            (\<exists>older. found = older @ pois r3) \<and>
            length (pois r3) \<le> 5 \<and> length (pois r3) \<le> pois_in_zone r3"
    by blast
qed

text \<open>
  The rising series has 12 order blocks, of which 10 are returned; the sweep series has
  one sweep and the shift series three points of interest.
\<close>

theorem reports_count_and_truncate_witness:
  "identify_order_blocks (Some rising_series) M15 Bullish = Result rising_report \<and>
   detect_liquidity_sweep (Some sweep_series) = Inr (Result sweep_series_report) \<and>
   find_mss_and_poi (Some shift_series) = Inr (Result (Mss_found shift_report)) \<and>
   length (scan_order_blocks rising_series M15 Bullish) = 12 \<and>
   length (order_blocks rising_report) = 10 \<and>
   length (order_blocks rising_report) \<le> 10 \<and>
   length (order_blocks rising_report) \<le> order_blocks_found rising_report \<and>
   length (recent_sweeps sweep_series_report) \<le> 5 \<and>
   length (recent_sweeps sweep_series_report) \<le> sweeps_detected sweep_series_report \<and>
   length (pois shift_report) \<le> 5 \<and>
   length (pois shift_report) \<le> pois_in_zone shift_report"
proof -
  have blocks: "identify_order_blocks (Some rising_series) M15 Bullish = Result rising_report"
    by code_simp
  have sweeps: "detect_liquidity_sweep (Some sweep_series) = Inr (Result sweep_series_report)"
    by code_simp
  have shift: "find_mss_and_poi (Some shift_series) = Inr (Result (Mss_found shift_report))"
    by code_simp
  have found: "order_blocks_found rising_report = 12"
    by (simp add: rising_report_def)
  note counted = reports_count_and_truncate [OF blocks sweeps shift]
  from counted found have "length (scan_order_blocks rising_series M15 Bullish) = 12"
    by simp
  moreover have "length (order_blocks rising_report) = 10"
    by code_simp
  moreover from counted have "length (order_blocks rising_report) \<le> 10"
    and "length (order_blocks rising_report) \<le> order_blocks_found rising_report"
    by blast+
  moreover from counted have "length (recent_sweeps sweep_series_report) \<le> 5"
    and "length (recent_sweeps sweep_series_report) \<le> sweeps_detected sweep_series_report"
    by blast+
  moreover from counted have "length (pois shift_report) \<le> 5"
    and "length (pois shift_report) \<le> pois_in_zone shift_report"
    by blast+
  ultimately show ?thesis
    using blocks sweeps shift by (intro conjI)
qed

section \<open>Properties of the risk calculator\<close>

lemma round_half_even_error: "\<bar>of_int (round_half_even x) - x\<bar> \<le> 1 / 2"
proof -
  have "of_int \<lfloor>x\<rfloor> \<le> x" and "x < of_int \<lfloor>x\<rfloor> + 1"
    by linarith+
  then show ?thesis
    unfolding round_half_even_def Let_def by auto
qed

lemma py_round_2_error: "\<bar>py_round x 2 - x\<bar> \<le> 1 / 200"
proof -
  have "\<bar>of_int (round_half_even (x * 100)) - x * 100\<bar> \<le> 1 / 2"
    by (rule round_half_even_error)
  then show ?thesis
    unfolding py_round_def by (simp add: field_simps abs_le_iff)
qed

lemma round_half_even_of_int: "round_half_even (of_int k) = k"
  unfolding round_half_even_def Let_def by simp

lemma py_round_two: "py_round 2 2 = 2"
proof -
  have "round_half_even (2 * 10 ^ 2) = round_half_even (of_int 200)" by simp
  then show ?thesis
    unfolding py_round_def by (simp only: round_half_even_of_int) simp
qed

text \<open>
  The calculator on a terminal that knows the symbol, with a point other than zero.
\<close>

lemma calculate_result:
  assumes "point si \<noteq> 0"
    and "raw_levels dir entry poi_level mss_lvl use_mss_sl (sl_buffer_of (point si)) =
           (stop, risk, target)"
  shows "\<exists>p. calculate_entry_sl_tp (Some si) dir entry poi_level mss_lvl use_mss_sl = Inr (Result p) \<and>
           tp_direction p = dir \<and>
           entry_price p = py_round entry 2 \<and> stop_loss p = py_round stop 2 \<and>
           take_profit p = py_round target 2 \<and>
           risk_reward_ratio p =
             py_round (if \<bar>entry - stop\<bar> / point si > 0
                       then (\<bar>target - entry\<bar> / point si) / (\<bar>entry - stop\<bar> / point si)
                       else 0) 2"
  using assms
  unfolding calculate_entry_sl_tp_def py_div_def Let_def
  by (simp add: sl_buffer_of_def)

text \<open>
  Claim C2, as the code has it. The calculator never compares the reference level with
  the entry price and has no failure for a reference on the wrong side. Whenever the
  symbol information is available with a point other than zero it returns parameters,
  for either direction and any entry and levels: the stop is the chosen level minus
  (buy) or plus (sell) the buffer, the target is the entry plus (buy) or minus (sell)
  twice the risk, both rounded to two decimals.
\<close>

theorem calculate_without_validation:
  assumes "point si \<noteq> 0"
  shows "\<exists>p. calculate_entry_sl_tp (Some si) dir entry poi_level mss_lvl use_mss_sl = Inr (Result p) \<and>
           tp_direction p = dir \<and>
           (dir = Buy \<longrightarrow>
              stop_loss p =
                py_round ((if use_mss_sl then mss_lvl else poi_level) - sl_buffer_of (point si)) 2 \<and>
              take_profit p =
                py_round (entry + 2 * (entry -
                  ((if use_mss_sl then mss_lvl else poi_level) - sl_buffer_of (point si)))) 2) \<and>
           (dir = Sell \<longrightarrow>
              stop_loss p =
                py_round ((if use_mss_sl then mss_lvl else poi_level) + sl_buffer_of (point si)) 2 \<and>
              take_profit p =
                py_round (entry - 2 * (((if use_mss_sl then mss_lvl else poi_level) +
                  sl_buffer_of (point si)) - entry)) 2)"
proof -
  obtain stop risk target where
    raw: "raw_levels dir entry poi_level mss_lvl use_mss_sl (sl_buffer_of (point si)) =
            (stop, risk, target)"
    by (cases "raw_levels dir entry poi_level mss_lvl use_mss_sl (sl_buffer_of (point si))")
  from calculate_result [OF assms raw] obtain p where
    p: "calculate_entry_sl_tp (Some si) dir entry poi_level mss_lvl use_mss_sl = Inr (Result p)"
      "tp_direction p = dir" "stop_loss p = py_round stop 2" "take_profit p = py_round target 2"
    by blast
  from raw have "dir = Buy \<longrightarrow>
      stop = (if use_mss_sl then mss_lvl else poi_level) - sl_buffer_of (point si) \<and>
      target = entry + 2 * (entry - ((if use_mss_sl then mss_lvl else poi_level) - sl_buffer_of (point si)))"
    unfolding raw_levels_def Let_def by auto
  moreover from raw have "dir = Sell \<longrightarrow>
      stop = (if use_mss_sl then mss_lvl else poi_level) + sl_buffer_of (point si) \<and>
      target = entry - 2 * (((if use_mss_sl then mss_lvl else poi_level) + sl_buffer_of (point si)) - entry)"
    unfolding raw_levels_def Let_def by auto
  ultimately show ?thesis using p by auto
qed

text \<open>
  A buy at 4170 under the level 4180: the stop 4178 is above the entry and the target
  4154 below it, and the parameters are returned.
\<close>

theorem calculate_without_validation_witness:
  "point xauusd_info \<noteq> 0 \<and>
   calculate_entry_sl_tp (Some xauusd_info) Buy 4170 4180 4180 False =
     Inr (Result wrong_side_parameters) \<and>
   stop_loss wrong_side_parameters = py_round (4180 - sl_buffer_of (point xauusd_info)) 2 \<and>
   take_profit wrong_side_parameters =
     py_round (4170 + 2 * (4170 - (4180 - sl_buffer_of (point xauusd_info)))) 2"
proof -
  have pt: "point xauusd_info \<noteq> 0"
    by (simp add: xauusd_info_def)
  have run: "calculate_entry_sl_tp (Some xauusd_info) Buy 4170 4180 4180 False =
     Inr (Result wrong_side_parameters)"
    by code_simp
  from calculate_without_validation [OF pt, of Buy 4170 4180 4180 False] run
  have "stop_loss wrong_side_parameters = py_round (4180 - sl_buffer_of (point xauusd_info)) 2 \<and>
    take_profit wrong_side_parameters =
      py_round (4170 + 2 * (4170 - (4180 - sl_buffer_of (point xauusd_info)))) 2"
    by auto
  with pt run show ?thesis by blast
qed

theorem calculate_wrong_side_counterexample:
  "calculate_entry_sl_tp (Some xauusd_info) Buy 4170 4180 4180 False =
     Inr (Result wrong_side_parameters) \<and>
   entry_price wrong_side_parameters < stop_loss wrong_side_parameters"
  by code_simp

text \<open>
  Claim C3, as the code has it. For a buy with a positive point and a stop below the
  entry, the returned stop loss is the chosen reference level minus the buffer rounded
  to two decimals (so within 0.005 of it, not always equal to it), the returned take
  profit minus the returned entry is twice the returned entry minus the returned stop
  loss up to 0.03, and the reported ratio is 2.
\<close>

theorem buy_levels:
  assumes "0 < point si"
    and "(if use_mss_sl then mss_lvl else poi_level) - sl_buffer_of (point si) < entry"
  shows "\<exists>p. calculate_entry_sl_tp (Some si) Buy entry poi_level mss_lvl use_mss_sl = Inr (Result p) \<and>
           stop_loss p =
             py_round ((if use_mss_sl then mss_lvl else poi_level) - sl_buffer_of (point si)) 2 \<and>
           \<bar>stop_loss p - ((if use_mss_sl then mss_lvl else poi_level) - sl_buffer_of (point si))\<bar>
             \<le> 1 / 200 \<and>
           \<bar>(take_profit p - entry_price p) - 2 * (entry_price p - stop_loss p)\<bar> \<le> 3 / 100 \<and>
           risk_reward_ratio p = 2"
proof -
  define stop where
    "stop = (if use_mss_sl then mss_lvl else poi_level) - sl_buffer_of (point si)"
  define target where "target = entry + (entry - stop) * 2"
  have raw: "raw_levels Buy entry poi_level mss_lvl use_mss_sl (sl_buffer_of (point si)) =
               (stop, entry - stop, target)"
    unfolding raw_levels_def Let_def stop_def target_def by simp
  from assms(1) have pt: "point si \<noteq> 0" by simp
  from calculate_result [OF pt raw] obtain p where
    run: "calculate_entry_sl_tp (Some si) Buy entry poi_level mss_lvl use_mss_sl = Inr (Result p)"
    and e: "entry_price p = py_round entry 2"
    and s: "stop_loss p = py_round stop 2"
    and t: "take_profit p = py_round target 2"
    and rr: "risk_reward_ratio p =
             py_round (if \<bar>entry - stop\<bar> / point si > 0
                       then (\<bar>target - entry\<bar> / point si) / (\<bar>entry - stop\<bar> / point si)
                       else 0) 2"
    by blast
  from assms(2) have below: "stop < entry"
    unfolding stop_def .
  with assms(1) have pos: "\<bar>entry - stop\<bar> / point si > 0"
    by simp
  from below have "\<bar>target - entry\<bar> = 2 * \<bar>entry - stop\<bar>"
    unfolding target_def by simp
  with pos assms(1) have "(\<bar>target - entry\<bar> / point si) / (\<bar>entry - stop\<bar> / point si) = 2"
    by (simp add: field_simps)
  with rr pos have ratio: "risk_reward_ratio p = 2"
    by (simp only: if_True py_round_two)
  have de: "\<bar>entry_price p - entry\<bar> \<le> 1 / 200"
    unfolding e by (rule py_round_2_error)
  have ds: "\<bar>stop_loss p - stop\<bar> \<le> 1 / 200"
    unfolding s by (rule py_round_2_error)
  have dt: "\<bar>take_profit p - target\<bar> \<le> 1 / 200"
    unfolding t by (rule py_round_2_error)
  from de ds dt
  have "\<bar>(take_profit p - entry_price p) - 2 * (entry_price p - stop_loss p)\<bar> \<le> 3 / 100"
    unfolding target_def abs_le_iff by auto
  with run s ds ratio show ?thesis
    unfolding stop_def by blast
qed

text \<open>
  Entry 4190 over the level 4180 with a buffer of 2: stop loss 4178, take profit 4214,
  ratio 2.
\<close>

theorem buy_levels_witness:
  "0 < point xauusd_info \<and>
   4180 - sl_buffer_of (point xauusd_info) < 4190 \<and>
   calculate_entry_sl_tp (Some xauusd_info) Buy 4190 4180 4185 False =
     Inr (Result buy_parameters) \<and>
   stop_loss buy_parameters = 4178 \<and> take_profit buy_parameters = 4214 \<and>
   \<bar>(take_profit buy_parameters - entry_price buy_parameters) -
      2 * (entry_price buy_parameters - stop_loss buy_parameters)\<bar> \<le> 3 / 100 \<and>
   risk_reward_ratio buy_parameters = 2"
proof -
  have pt: "0 < point xauusd_info"
    by (simp add: xauusd_info_def)
  have below: "(if False then 4185 else 4180) - sl_buffer_of (point xauusd_info) < 4190"
    by (simp add: xauusd_info_def sl_buffer_of_def)
  have run: "calculate_entry_sl_tp (Some xauusd_info) Buy 4190 4180 4185 False =
     Inr (Result buy_parameters)"
    by code_simp
  from buy_levels [OF pt below] run
  have c: "\<bar>(take_profit buy_parameters - entry_price buy_parameters) -
      2 * (entry_price buy_parameters - stop_loss buy_parameters)\<bar> \<le> 3 / 100 \<and>
    risk_reward_ratio buy_parameters = 2"
    by auto
  have levels: "stop_loss buy_parameters = 4178 \<and> take_profit buy_parameters = 4214"
    by (simp add: buy_parameters_def)
  from below have "4180 - sl_buffer_of (point xauusd_info) < 4190" by simp
  with pt run c levels show ?thesis by blast
qed

text \<open>
  Over the level 4180.001 the stop before rounding is 4178.001; the returned stop loss
  is 4178.
\<close>

theorem stop_loss_rounded_counterexample:
  "calculate_entry_sl_tp (Some xauusd_info) Buy 4190 (4180001 / 1000) 4185 False =
     Inr (Result off_grid_parameters) \<and>
   stop_loss off_grid_parameters \<noteq> 4180001 / 1000 - sl_buffer_of (point xauusd_info)"
  by code_simp

section \<open>Properties of the order submission\<close>

lemma send_order_requests:
  "snd (send_order mt5 dir entry sl_price tp_price lot_size cmt) = [] \<or>
   (\<exists>si current. symbol_info_of mt5 = Some si \<and> symbol_info_tick mt5 = Some current \<and>
      snd (send_order mt5 dir entry sl_price tp_price lot_size cmt) =
        [\<lparr>action = TRADE_ACTION_DEAL, symbol = SYMBOL, volume = lot_size,
          order_type = (if dir = Buy then ORDER_TYPE_BUY else ORDER_TYPE_SELL),
          price = (if dir = Buy then ask current else bid current),
          sl = sl_price, tp = tp_price, deviation = 20, magic = MAGIC_NUMBER,
          comment = cmt, type_time = ORDER_TIME_GTC,
          type_filling = (if filling_mode si AND 1 \<noteq> 0 then ORDER_FILLING_FOK
                          else if filling_mode si AND 2 \<noteq> 0 then ORDER_FILLING_IOC
                          else ORDER_FILLING_RETURN)\<rparr>])"
proof (cases "symbol_info_of mt5")
  case None
  then show ?thesis
    unfolding send_order_def by simp
next
  case si: (Some si)
  show ?thesis
  proof (cases "symbol_info_tick mt5")
    case None
    with si show ?thesis
      unfolding send_order_def by simp
  next
    case tick: (Some current)
    define request where
      "request = \<lparr>action = TRADE_ACTION_DEAL, symbol = SYMBOL, volume = lot_size,
          order_type = (if dir = Buy then ORDER_TYPE_BUY else ORDER_TYPE_SELL),
          price = (if dir = Buy then ask current else bid current),
          sl = sl_price, tp = tp_price, deviation = 20, magic = MAGIC_NUMBER,
          comment = cmt, type_time = ORDER_TIME_GTC,
          type_filling = (if filling_mode si AND 1 \<noteq> 0 then ORDER_FILLING_FOK
                          else if filling_mode si AND 2 \<noteq> 0 then ORDER_FILLING_IOC
                          else ORDER_FILLING_RETURN)\<rparr>"
    have unfolded: "send_order mt5 dir entry sl_price tp_price lot_size cmt =
        (if \<not> visible si \<and> \<not> symbol_select mt5 then (Failed_to_select_symbol, [])
         else case order_send mt5 request of
                None \<Rightarrow> (Order_send_returned_None request, [request])
              | Some res \<Rightarrow>
                  (Response \<lparr>order_sent = True, resp_retcode = retcode res,
                             resp_deal = deal res, resp_request = request,
                             success = (retcode res = TRADE_RETCODE_DONE)\<rparr>,
                   [request]))"
      unfolding send_order_def Let_def request_def using si tick
      by (cases "dir = Buy") simp_all
    have "snd (send_order mt5 dir entry sl_price tp_price lot_size cmt) = [] \<or>
          snd (send_order mt5 dir entry sl_price tp_price lot_size cmt) = [request]"
      unfolding unfolded by (cases "order_send mt5 request") simp_all
    with si tick show ?thesis
      unfolding request_def by blast
  qed
qed

text \<open>
  Claim C1, as the code has it. A call of \<^verbatim>\<open>send_order\<close> submits at most one request.
  The request carries the stop loss, the take profit and the lot size it was called
  with. Its price is the current market price of the terminal, the ask for a buy and
  the bid for a sell, not the entry price of the call.
\<close>

theorem send_order_request:
  assumes "rq \<in> set (snd (send_order mt5 dir entry sl_price tp_price lot_size cmt))"
  shows "snd (send_order mt5 dir entry sl_price tp_price lot_size cmt) = [rq] \<and>
         (\<exists>current. symbol_info_tick mt5 = Some current \<and>
            price rq = (if dir = Buy then ask current else bid current)) \<and>
         sl rq = sl_price \<and> tp rq = tp_price \<and> volume rq = lot_size"
  using assms send_order_requests [of mt5 dir entry sl_price tp_price lot_size cmt]
  by auto

text \<open>
  On a terminal that asks 4191, a buy with entry price 4190 is submitted at 4191.
\<close>

theorem send_order_request_witness:
  "market_buy_request \<in>
     set (snd (send_order quoting_terminal Buy 4190 4178 4214 (1 / 100) ''7MS Strategy'')) \<and>
   (\<exists>current. symbol_info_tick quoting_terminal = Some current \<and>
      price market_buy_request = (if Buy = Buy then ask current else bid current)) \<and>
   sl market_buy_request = 4178 \<and> tp market_buy_request = 4214 \<and>
   volume market_buy_request = 1 / 100"
proof -
  have sent: "market_buy_request \<in>
     set (snd (send_order quoting_terminal Buy 4190 4178 4214 (1 / 100) ''7MS Strategy''))"
    by code_simp
  from send_order_request [OF sent] sent show ?thesis by blast
qed

theorem send_order_price_counterexample:
  "snd (send_order quoting_terminal Buy 4190 4178 4214 (1 / 100) ''7MS Strategy'') =
     [market_buy_request] \<and>
   price market_buy_request \<noteq> 4190"
  by code_simp

section \<open>Properties of the approval step\<close>

lemma edited_action_args:
  "name (edited_action act entry sl_price tp_price lot_size) = name act \<and>
   args (edited_action act entry sl_price tp_price lot_size) ''entry_price'' = Some (FloatV entry) \<and>
   args (edited_action act entry sl_price tp_price lot_size) ''sl_price'' = Some (FloatV sl_price) \<and>
   args (edited_action act entry sl_price tp_price lot_size) ''tp_price'' = Some (FloatV tp_price) \<and>
   args (edited_action act entry sl_price tp_price lot_size) ''lot_size'' = Some (FloatV lot_size) \<and>
   (\<forall>key. key \<notin> {''entry_price'', ''sl_price'', ''tp_price'', ''lot_size''} \<longrightarrow>
      args (edited_action act entry sl_price tp_price lot_size) key = args act key)"
  unfolding edited_action_def by simp

lemma handle_approval_edit:
  "fst (handle_approval (Some reqs) (Some agent) ''edit'' entry sl_price tp_price lot_size) =
     Some (map (\<lambda>act. Edit (edited_action act entry sl_price tp_price lot_size)) reqs)"
  unfolding handle_approval_def resume_value_def
  by (simp split: option.splits)

lemma prompt_edited_action_args:
  "name (prompt_edited_action to_float to_int typed act) = name act \<and>
   (\<forall>key. args act key = None \<longrightarrow>
      args (prompt_edited_action to_float to_int typed act) key = None) \<and>
   (\<forall>key v. args act key = Some v \<longrightarrow> typed key = [] \<longrightarrow>
      args (prompt_edited_action to_float to_int typed act) key = Some v) \<and>
   (\<forall>key old x. args act key = Some (FloatV old) \<longrightarrow> typed key \<noteq> [] \<longrightarrow>
      to_float (typed key) = Some x \<longrightarrow>
      args (prompt_edited_action to_float to_int typed act) key = Some (FloatV x)) \<and>
   (\<forall>key old. args act key = Some (FloatV old) \<longrightarrow> typed key \<noteq> [] \<longrightarrow>
      to_float (typed key) = None \<longrightarrow>
      args (prompt_edited_action to_float to_int typed act) key = Some (StrV (typed key))) \<and>
   (\<forall>key old n. args act key = Some (IntV old) \<longrightarrow> typed key \<noteq> [] \<longrightarrow>
      to_int (typed key) = Some n \<longrightarrow>
      args (prompt_edited_action to_float to_int typed act) key = Some (IntV n)) \<and>
   (\<forall>key old. args act key = Some (IntV old) \<longrightarrow> typed key \<noteq> [] \<longrightarrow>
      to_int (typed key) = None \<longrightarrow>
      args (prompt_edited_action to_float to_int typed act) key = Some (StrV (typed key))) \<and>
   (\<forall>key old. args act key = Some (StrV old) \<longrightarrow> typed key \<noteq> [] \<longrightarrow>
      args (prompt_edited_action to_float to_int typed act) key = Some (StrV (typed key)))"
  unfolding prompt_edited_action_def edit_value_def by simp

text \<open>
  Claim C4. When a pending interrupt is resolved with the decision \<^verbatim>\<open>edit\<close>, the
  handler resumes the agent with one edit decision per pending call: it keeps the name
  of the call and carries the entry price, stop loss, take profit and lot size of the
  decision in place of the proposed ones, and the other arguments unchanged. This
  holds for any four values: the handler checks nothing about them. The prompt of
  \<^verbatim>\<open>main\<close> decides every argument of every pending call by what was typed for it:
  an empty answer keeps the proposed value; an answer for a proposed float or whole
  number replaces it by the converted number, or by the typed text itself when the
  conversion fails; an answer for a proposed text replaces it by the typed text; and no
  argument is added. Nothing is checked there either.
\<close>

theorem edit_replaces_parameters:
  "(\<exists>ds. fst (handle_approval (Some reqs) (Some agent) ''edit'' entry sl_price tp_price lot_size)
           = Some ds \<and>
         length ds = length reqs \<and>
         (\<forall>i < length reqs. \<exists>a. ds ! i = Edit a \<and> name a = name (reqs ! i) \<and>
            args a ''entry_price'' = Some (FloatV entry) \<and>
            args a ''sl_price'' = Some (FloatV sl_price) \<and>
            args a ''tp_price'' = Some (FloatV tp_price) \<and>
            args a ''lot_size'' = Some (FloatV lot_size) \<and>
            (\<forall>key. key \<notin> {''entry_price'', ''sl_price'', ''tp_price'', ''lot_size''} \<longrightarrow>
               args a key = args (reqs ! i) key))) \<and>
   (length (prompt_resume_value to_float to_int ''edit'' reason typed reqs) = length reqs \<and>
    (\<forall>i < length reqs. \<exists>a.
       prompt_resume_value to_float to_int ''edit'' reason typed reqs ! i = Edit a \<and>
       name a = name (reqs ! i) \<and>
       (\<forall>key. args (reqs ! i) key = None \<longrightarrow> args a key = None) \<and>
       (\<forall>key v. args (reqs ! i) key = Some v \<longrightarrow> typed (reqs ! i) key = [] \<longrightarrow>
          args a key = Some v) \<and>
       (\<forall>key old x. args (reqs ! i) key = Some (FloatV old) \<longrightarrow>
          typed (reqs ! i) key \<noteq> [] \<longrightarrow> to_float (typed (reqs ! i) key) = Some x \<longrightarrow>
          args a key = Some (FloatV x)) \<and>
       (\<forall>key old. args (reqs ! i) key = Some (FloatV old) \<longrightarrow>
          typed (reqs ! i) key \<noteq> [] \<longrightarrow> to_float (typed (reqs ! i) key) = None \<longrightarrow>
          args a key = Some (StrV (typed (reqs ! i) key))) \<and>
       (\<forall>key old n. args (reqs ! i) key = Some (IntV old) \<longrightarrow>
          typed (reqs ! i) key \<noteq> [] \<longrightarrow> to_int (typed (reqs ! i) key) = Some n \<longrightarrow>
          args a key = Some (IntV n)) \<and>
       (\<forall>key old. args (reqs ! i) key = Some (IntV old) \<longrightarrow>
          typed (reqs ! i) key \<noteq> [] \<longrightarrow> to_int (typed (reqs ! i) key) = None \<longrightarrow>
          args a key = Some (StrV (typed (reqs ! i) key))) \<and>
       (\<forall>key old. args (reqs ! i) key = Some (StrV old) \<longrightarrow>
          typed (reqs ! i) key \<noteq> [] \<longrightarrow>
          args a key = Some (StrV (typed (reqs ! i) key)))))"
proof (intro conjI)
  let ?ds = "map (\<lambda>act. Edit (edited_action act entry sl_price tp_price lot_size)) reqs"
  have "\<forall>i < length reqs. \<exists>a. ?ds ! i = Edit a \<and> name a = name (reqs ! i) \<and>
            args a ''entry_price'' = Some (FloatV entry) \<and>
            args a ''sl_price'' = Some (FloatV sl_price) \<and>
            args a ''tp_price'' = Some (FloatV tp_price) \<and>
            args a ''lot_size'' = Some (FloatV lot_size) \<and>
            (\<forall>key. key \<notin> {''entry_price'', ''sl_price'', ''tp_price'', ''lot_size''} \<longrightarrow>
               args a key = args (reqs ! i) key)"
  proof (intro allI impI)
    fix i assume "i < length reqs"
    then have "?ds ! i = Edit (edited_action (reqs ! i) entry sl_price tp_price lot_size)"
      by simp
    with edited_action_args [of "reqs ! i" entry sl_price tp_price lot_size]
    show "\<exists>a. ?ds ! i = Edit a \<and> name a = name (reqs ! i) \<and>
            args a ''entry_price'' = Some (FloatV entry) \<and>
            args a ''sl_price'' = Some (FloatV sl_price) \<and>
            args a ''tp_price'' = Some (FloatV tp_price) \<and>
            args a ''lot_size'' = Some (FloatV lot_size) \<and>
            (\<forall>key. key \<notin> {''entry_price'', ''sl_price'', ''tp_price'', ''lot_size''} \<longrightarrow>
               args a key = args (reqs ! i) key)"
      by blast
  qed
  moreover have "length ?ds = length reqs" by simp
  ultimately show "\<exists>ds. fst (handle_approval (Some reqs) (Some agent) ''edit'' entry sl_price
        tp_price lot_size) = Some ds \<and>
      length ds = length reqs \<and>
      (\<forall>i < length reqs. \<exists>a. ds ! i = Edit a \<and> name a = name (reqs ! i) \<and>
            args a ''entry_price'' = Some (FloatV entry) \<and>
            args a ''sl_price'' = Some (FloatV sl_price) \<and>
            args a ''tp_price'' = Some (FloatV tp_price) \<and>
            args a ''lot_size'' = Some (FloatV lot_size) \<and>
            (\<forall>key. key \<notin> {''entry_price'', ''sl_price'', ''tp_price'', ''lot_size''} \<longrightarrow>
               args a key = args (reqs ! i) key))"
    using handle_approval_edit [of reqs agent entry sl_price tp_price lot_size] by blast
next
  show "length (prompt_resume_value to_float to_int ''edit'' reason typed reqs) = length reqs"
    unfolding prompt_resume_value_def by simp
next
  show "\<forall>i < length reqs. \<exists>a.
       prompt_resume_value to_float to_int ''edit'' reason typed reqs ! i = Edit a \<and>
       name a = name (reqs ! i) \<and>
       (\<forall>key. args (reqs ! i) key = None \<longrightarrow> args a key = None) \<and>
       (\<forall>key v. args (reqs ! i) key = Some v \<longrightarrow> typed (reqs ! i) key = [] \<longrightarrow>
          args a key = Some v) \<and>
       (\<forall>key old x. args (reqs ! i) key = Some (FloatV old) \<longrightarrow>
          typed (reqs ! i) key \<noteq> [] \<longrightarrow> to_float (typed (reqs ! i) key) = Some x \<longrightarrow>
          args a key = Some (FloatV x)) \<and>
       (\<forall>key old. args (reqs ! i) key = Some (FloatV old) \<longrightarrow>
          typed (reqs ! i) key \<noteq> [] \<longrightarrow> to_float (typed (reqs ! i) key) = None \<longrightarrow>
          args a key = Some (StrV (typed (reqs ! i) key))) \<and>
       (\<forall>key old n. args (reqs ! i) key = Some (IntV old) \<longrightarrow>
          typed (reqs ! i) key \<noteq> [] \<longrightarrow> to_int (typed (reqs ! i) key) = Some n \<longrightarrow>
          args a key = Some (IntV n)) \<and>
       (\<forall>key old. args (reqs ! i) key = Some (IntV old) \<longrightarrow>
          typed (reqs ! i) key \<noteq> [] \<longrightarrow> to_int (typed (reqs ! i) key) = None \<longrightarrow>
          args a key = Some (StrV (typed (reqs ! i) key))) \<and>
       (\<forall>key old. args (reqs ! i) key = Some (StrV old) \<longrightarrow>
          typed (reqs ! i) key \<noteq> [] \<longrightarrow>
          args a key = Some (StrV (typed (reqs ! i) key)))"
  proof (intro allI impI)
    fix i assume i: "i < length reqs"
    let ?a = "prompt_edited_action to_float to_int (typed (reqs ! i)) (reqs ! i)"
    from i have decision:
      "prompt_resume_value to_float to_int ''edit'' reason typed reqs ! i = Edit ?a"
      unfolding prompt_resume_value_def by simp
    show "\<exists>a.
       prompt_resume_value to_float to_int ''edit'' reason typed reqs ! i = Edit a \<and>
       name a = name (reqs ! i) \<and>
       (\<forall>key. args (reqs ! i) key = None \<longrightarrow> args a key = None) \<and>
       (\<forall>key v. args (reqs ! i) key = Some v \<longrightarrow> typed (reqs ! i) key = [] \<longrightarrow>
          args a key = Some v) \<and>
       (\<forall>key old x. args (reqs ! i) key = Some (FloatV old) \<longrightarrow>
          typed (reqs ! i) key \<noteq> [] \<longrightarrow> to_float (typed (reqs ! i) key) = Some x \<longrightarrow>
          args a key = Some (FloatV x)) \<and>
       (\<forall>key old. args (reqs ! i) key = Some (FloatV old) \<longrightarrow>
          typed (reqs ! i) key \<noteq> [] \<longrightarrow> to_float (typed (reqs ! i) key) = None \<longrightarrow>
          args a key = Some (StrV (typed (reqs ! i) key))) \<and>
       (\<forall>key old n. args (reqs ! i) key = Some (IntV old) \<longrightarrow>
          typed (reqs ! i) key \<noteq> [] \<longrightarrow> to_int (typed (reqs ! i) key) = Some n \<longrightarrow>
          args a key = Some (IntV n)) \<and>
       (\<forall>key old. args (reqs ! i) key = Some (IntV old) \<longrightarrow>
          typed (reqs ! i) key \<noteq> [] \<longrightarrow> to_int (typed (reqs ! i) key) = None \<longrightarrow>
          args a key = Some (StrV (typed (reqs ! i) key))) \<and>
       (\<forall>key old. args (reqs ! i) key = Some (StrV old) \<longrightarrow>
          typed (reqs ! i) key \<noteq> [] \<longrightarrow>
          args a key = Some (StrV (typed (reqs ! i) key)))"
      by (rule exI [of _ ?a])
        (rule conjI [OF decision prompt_edited_action_args
           [of to_float to_int "typed (reqs ! i)" "reqs ! i"]])
  qed
qed

text \<open>
  The proposed buy at 4190 with stop 4178 and target 4214 is edited to entry 4192, stop
  4180 and target 4220; at the prompt, 4192 is typed for the entry price. For the call
  proposed with whole numbers the prompt turns 4192 into a whole number, keeps 4180.5
  and 4220,0 as typed, replaces the comment and keeps the lot size.
\<close>

theorem edit_replaces_parameters_witness:
  "0 < length [proposed_order] \<and>
   ''direction'' \<notin> {''entry_price'', ''sl_price'', ''tp_price'', ''lot_size''} \<and>
   args proposed_order ''entry_price'' = Some (FloatV 4190) \<and>
   typed_entry proposed_order ''entry_price'' \<noteq> [] \<and>
   float_of_typed (typed_entry proposed_order ''entry_price'') = Some 4192 \<and>
   (\<exists>ds a. fst (handle_approval (Some [proposed_order]) (Some finishing_agent) ''edit''
                  4192 4180 4220 (1 / 50)) = Some ds \<and>
      ds ! 0 = Edit a \<and>
      args a ''entry_price'' = Some (FloatV 4192) \<and>
      args a ''sl_price'' = Some (FloatV 4180) \<and>
      args a ''tp_price'' = Some (FloatV 4220) \<and>
      args a ''lot_size'' = Some (FloatV (1 / 50)) \<and>
      args a ''direction'' = args proposed_order ''direction'') \<and>
   (\<exists>a. prompt_resume_value float_of_typed int_of_typed ''edit'' [] typed_entry
           [proposed_order] ! 0 = Edit a \<and>
      args a ''entry_price'' = Some (FloatV 4192)) \<and>
   (\<exists>a. prompt_resume_value float_of_typed int_of_typed ''edit'' [] typed_answers
           [whole_number_order] ! 0 = Edit a \<and>
      args a ''entry_price'' = Some (IntV 4192) \<and>
      args a ''sl_price'' = Some (StrV ''4180.5'') \<and>
      args a ''tp_price'' = Some (StrV ''4220,0'') \<and>
      args a ''comment'' = Some (StrV ''edited'') \<and>
      args a ''lot_size'' = Some (FloatV (1 / 100)) \<and>
      args a ''magic'' = None)"
proof -
  have pending: "0 < length [proposed_order]"
    by simp
  have other: "''direction'' \<notin> {''entry_price'', ''sl_price'', ''tp_price'', ''lot_size''}"
    by simp
  have original: "args proposed_order ''entry_price'' = Some (FloatV 4190)"
    by (simp add: proposed_order_def)
  have typed: "typed_entry proposed_order ''entry_price'' \<noteq> []"
    by (simp add: typed_entry_def)
  have converted: "float_of_typed (typed_entry proposed_order ''entry_price'') = Some 4192"
    by (simp add: typed_entry_def float_of_typed_def)
  note inst = edit_replaces_parameters
    [where reqs = "[proposed_order]" and agent = finishing_agent and entry = 4192
       and sl_price = 4180 and tp_price = 4220 and lot_size = "1 / 50"
       and to_float = float_of_typed and to_int = int_of_typed and reason = "[]"
       and typed = typed_entry]
  from inst obtain ds where
    ds: "fst (handle_approval (Some [proposed_order]) (Some finishing_agent) ''edit''
              4192 4180 4220 (1 / 50)) = Some ds"
    and each: "\<forall>i < length [proposed_order]. \<exists>a. ds ! i = Edit a \<and>
            name a = name ([proposed_order] ! i) \<and>
            args a ''entry_price'' = Some (FloatV 4192) \<and>
            args a ''sl_price'' = Some (FloatV 4180) \<and>
            args a ''tp_price'' = Some (FloatV 4220) \<and>
            args a ''lot_size'' = Some (FloatV (1 / 50)) \<and>
            (\<forall>key. key \<notin> {''entry_price'', ''sl_price'', ''tp_price'', ''lot_size''} \<longrightarrow>
               args a key = args ([proposed_order] ! i) key)"
    by blast
  from each pending obtain a where
    a: "ds ! 0 = Edit a" "args a ''entry_price'' = Some (FloatV 4192)"
      "args a ''sl_price'' = Some (FloatV 4180)" "args a ''tp_price'' = Some (FloatV 4220)"
      "args a ''lot_size'' = Some (FloatV (1 / 50))"
    and rest: "\<forall>key. key \<notin> {''entry_price'', ''sl_price'', ''tp_price'', ''lot_size''} \<longrightarrow>
               args a key = args ([proposed_order] ! 0) key"
    by blast
  from rest other have "args a ''direction'' = args proposed_order ''direction''"
    by simp
  with ds a have gui: "\<exists>ds a. fst (handle_approval (Some [proposed_order]) (Some finishing_agent)
                  ''edit'' 4192 4180 4220 (1 / 50)) = Some ds \<and>
      ds ! 0 = Edit a \<and>
      args a ''entry_price'' = Some (FloatV 4192) \<and>
      args a ''sl_price'' = Some (FloatV 4180) \<and>
      args a ''tp_price'' = Some (FloatV 4220) \<and>
      args a ''lot_size'' = Some (FloatV (1 / 50)) \<and>
      args a ''direction'' = args proposed_order ''direction''"
    by blast
  note prompted = inst [THEN conjunct2, THEN conjunct2, rule_format, OF pending]
  from prompted obtain b where
    b: "prompt_resume_value float_of_typed int_of_typed ''edit'' [] typed_entry
          [proposed_order] ! 0 = Edit b"
    and conv: "\<forall>key old x. args ([proposed_order] ! 0) key = Some (FloatV old) \<longrightarrow>
          typed_entry ([proposed_order] ! 0) key \<noteq> [] \<longrightarrow>
          float_of_typed (typed_entry ([proposed_order] ! 0) key) = Some x \<longrightarrow>
          args b key = Some (FloatV x)"
    by (elim exE conjE)
  from conv original typed converted have "args b ''entry_price'' = Some (FloatV 4192)"
    by simp
  with b have prompt: "\<exists>a. prompt_resume_value float_of_typed int_of_typed ''edit'' []
        typed_entry [proposed_order] ! 0 = Edit a \<and>
      args a ''entry_price'' = Some (FloatV 4192)"
    by blast
  have pending': "0 < length [whole_number_order]"
    by simp
  note inst' = edit_replaces_parameters
    [where reqs = "[whole_number_order]" and agent = finishing_agent and entry = 4192
       and sl_price = 4180 and tp_price = 4220 and lot_size = "1 / 50"
       and to_float = float_of_typed and to_int = int_of_typed and reason = "[]"
       and typed = typed_answers]
  note prompted' = inst' [THEN conjunct2, THEN conjunct2, rule_format, OF pending']
  from prompted' obtain c where
    c: "prompt_resume_value float_of_typed int_of_typed ''edit'' [] typed_answers
          [whole_number_order] ! 0 = Edit c"
    and absent: "\<forall>key. args ([whole_number_order] ! 0) key = None \<longrightarrow> args c key = None"
    and kept: "\<forall>key v. args ([whole_number_order] ! 0) key = Some v \<longrightarrow>
          typed_answers ([whole_number_order] ! 0) key = [] \<longrightarrow> args c key = Some v"
    and float_kept_text: "\<forall>key old. args ([whole_number_order] ! 0) key = Some (FloatV old) \<longrightarrow>
          typed_answers ([whole_number_order] ! 0) key \<noteq> [] \<longrightarrow>
          float_of_typed (typed_answers ([whole_number_order] ! 0) key) = None \<longrightarrow>
          args c key = Some (StrV (typed_answers ([whole_number_order] ! 0) key))"
    and int_converted: "\<forall>key old n. args ([whole_number_order] ! 0) key = Some (IntV old) \<longrightarrow>
          typed_answers ([whole_number_order] ! 0) key \<noteq> [] \<longrightarrow>
          int_of_typed (typed_answers ([whole_number_order] ! 0) key) = Some n \<longrightarrow>
          args c key = Some (IntV n)"
    and int_kept_text: "\<forall>key old. args ([whole_number_order] ! 0) key = Some (IntV old) \<longrightarrow>
          typed_answers ([whole_number_order] ! 0) key \<noteq> [] \<longrightarrow>
          int_of_typed (typed_answers ([whole_number_order] ! 0) key) = None \<longrightarrow>
          args c key = Some (StrV (typed_answers ([whole_number_order] ! 0) key))"
    and text_replaced: "\<forall>key old. args ([whole_number_order] ! 0) key = Some (StrV old) \<longrightarrow>
          typed_answers ([whole_number_order] ! 0) key \<noteq> [] \<longrightarrow>
          args c key = Some (StrV (typed_answers ([whole_number_order] ! 0) key))"
    by (elim exE conjE)
  have "args whole_number_order ''entry_price'' = Some (IntV 4190)"
    and "typed_answers whole_number_order ''entry_price'' \<noteq> []"
    and "int_of_typed (typed_answers whole_number_order ''entry_price'') = Some 4192"
    by (simp_all add: whole_number_order_def typed_answers_def int_of_typed_def)
  with int_converted have c_entry: "args c ''entry_price'' = Some (IntV 4192)"
    by simp
  have "args whole_number_order ''sl_price'' = Some (IntV 4178)"
    and "typed_answers whole_number_order ''sl_price'' = ''4180.5''"
    and "int_of_typed (typed_answers whole_number_order ''sl_price'') = None"
    by (simp_all add: whole_number_order_def typed_answers_def int_of_typed_def)
  with int_kept_text have c_stop: "args c ''sl_price'' = Some (StrV ''4180.5'')"
    by simp
  have "args whole_number_order ''tp_price'' = Some (FloatV 4214)"
    and "typed_answers whole_number_order ''tp_price'' = ''4220,0''"
    and "float_of_typed (typed_answers whole_number_order ''tp_price'') = None"
    by (simp_all add: whole_number_order_def typed_answers_def float_of_typed_def)
  with float_kept_text have c_target: "args c ''tp_price'' = Some (StrV ''4220,0'')"
    by simp
  have "args whole_number_order ''comment'' = Some (StrV ''7MS Strategy'')"
    and "typed_answers whole_number_order ''comment'' = ''edited''"
    by (simp_all add: whole_number_order_def typed_answers_def)
  with text_replaced have c_comment: "args c ''comment'' = Some (StrV ''edited'')"
    by simp
  have "args whole_number_order ''lot_size'' = Some (FloatV (1 / 100))"
    and "typed_answers whole_number_order ''lot_size'' = []"
    by (simp_all add: whole_number_order_def typed_answers_def)
  with kept have c_lot: "args c ''lot_size'' = Some (FloatV (1 / 100))"
    by simp
  have "args whole_number_order ''magic'' = None"
    by (simp add: whole_number_order_def)
  with absent have c_magic: "args c ''magic'' = None"
    by simp
  from c c_entry c_stop c_target c_comment c_lot c_magic
  have prompt': "\<exists>a. prompt_resume_value float_of_typed int_of_typed ''edit'' [] typed_answers
           [whole_number_order] ! 0 = Edit a \<and>
      args a ''entry_price'' = Some (IntV 4192) \<and>
      args a ''sl_price'' = Some (StrV ''4180.5'') \<and>
      args a ''tp_price'' = Some (StrV ''4220,0'') \<and>
      args a ''comment'' = Some (StrV ''edited'') \<and>
      args a ''lot_size'' = Some (FloatV (1 / 100)) \<and>
      args a ''magic'' = None"
    by blast
  from pending other original typed converted gui prompt prompt' show ?thesis
    by (intro conjI)
qed

end
